theory Spec2Isabelle
  imports Complex_Main
begin

section \<open>Mortality classification: the training and evaluation orchestration\<close>

text \<open>
  A shallow embedding of \<^verbatim>\<open>mortality_classification.py\<close>: the functions
  \<^verbatim>\<open>train_test\<close>, \<^verbatim>\<open>train\<close> and \<^verbatim>\<open>test\<close>.
  Python floats are modelled as reals (rounding is left out), exceptions as values of
  the type \<open>error\<close>, files as a map from paths to contents, and every call into a
  library or into a model implementation as a field of the record \<open>env\<close>.
  Printing and the progress bar have no effect on the results and are left out, and so
  are failures of the file system: the output directory exists and can be written.
\<close>

subsection \<open>Data model\<close>

datatype device = CUDA | MPS | CPU

datatype error =
    StopIteration
  | IndexError
  | UnboundLocalError string
  | ValueError string
  | TypeError string
  | RuntimeError string
  | FileNotFoundError string

text \<open>A tensor: its shape, the device it lives on, and its entries.\<close>

record tensor =
  shape :: "nat list"
  dev :: device
  content :: "real list"

text \<open>\<^verbatim>\<open>t.to(device)\<close>\<close>

definition to :: "device \<Rightarrow> tensor \<Rightarrow> tensor" where
  "to device t = t\<lparr>dev := device\<rparr>"

text \<open>\<^verbatim>\<open>t.shape[i]\<close>, which raises IndexError out of range.\<close>

definition shape_at :: "tensor \<Rightarrow> nat \<Rightarrow> error + nat" where
  "shape_at t i = (if i < length (shape t) then Inr (shape t ! i) else Inl IndexError)"

text \<open>
  A batch is the 6-tuple \<^verbatim>\<open>(data, times, static, labels, mask, delta)\<close>; the
  labels are a vector of class indices.
\<close>

record batch =
  b_data :: tensor
  b_times :: tensor
  b_static :: tensor
  b_labels :: "int list"
  b_mask :: tensor
  b_delta :: tensor

text \<open>
  The keyword arguments of a model call,
  \<^verbatim>\<open>model(x=data, static=static, time=times, sensor_mask=mask, delta=delta)\<close>.
\<close>

record model_input =
  in_x :: tensor
  in_static :: tensor
  in_time :: tensor
  in_sensor_mask :: tensor
  in_delta :: tensor

text \<open>
  Every model is built with two output classes (\<^verbatim>\<open>output_dims=2\<close>,
  \<^verbatim>\<open>num_classes=2\<close>), so a prediction tensor of shape (N, 2) is a list of N pairs of
  logits, and \<^verbatim>\<open>squeeze(-1)\<close> leaves it as it is. A model call returns the
  predictions or a tuple of the predictions and a reconstruction loss.
\<close>

type_synonym logits = "(real \<times> real) list"

text \<open>
  Whether a model call records gradients: it does in the training loop, and it does not
  inside \<^verbatim>\<open>with torch.no_grad()\<close>, where the validation and the test loop run.
\<close>

datatype grad_mode = Grad | NoGrad

datatype prediction = Plain logits | WithAux logits real

type_synonym model_args = "(string \<times> string) list"

text \<open>The five constructor calls of \<^verbatim>\<open>train\<close>, with their keyword arguments in the order of the source.\<close>

datatype ctor_call =
    GRUDModel nat nat nat device model_args
  | InterpolationPredictionModel nat nat model_args
  | DeepSetAttentionModel nat nat model_args
  | EncoderClassifierRegular nat device nat nat nat bool model_args
  | CustomMambaModel nat nat nat nat model_args

record model =
  params :: "real list"
  training :: bool
  placed :: device

definition model_train :: "model \<Rightarrow> model" where
  "model_train m = m\<lparr>training := True\<rparr>"

definition model_eval :: "model \<Rightarrow> model" where
  "model_eval m = m\<lparr>training := False\<rparr>"

definition model_to :: "device \<Rightarrow> model \<Rightarrow> model" where
  "model_to device m = m\<lparr>placed := device\<rparr>"

definition state_dict :: "model \<Rightarrow> real list" where
  "state_dict m = params m"

definition load_state_dict :: "model \<Rightarrow> real list \<Rightarrow> model" where
  "load_state_dict m sd = m\<lparr>params := sd\<rparr>"

record optimizer =
  opt_lr :: real
  opt_state :: "real list"

text \<open>
  \<^verbatim>\<open>torch.optim.Adam(model.parameters(), lr=lr)\<close>, which raises ValueError for a
  negative learning rate and for a model without parameters.
\<close>

definition Adam :: "model \<Rightarrow> real \<Rightarrow> error + optimizer" where
  "Adam m lr =
     (if lr < 0 then Inl (ValueError ''Invalid learning rate'')
      else if params m = [] then Inl (ValueError ''optimizer got an empty parameter list'')
      else Inr \<lparr>opt_lr = lr, opt_state = []\<rparr>)"

datatype json = Num real | Obj "(string \<times> json) list"

datatype file_content =
    Text string
  | Checkpoint "real list"
  | Figure string
  | Json "(string \<times> json) list"

type_synonym fs = "string \<Rightarrow> file_content option"

subsection \<open>Libraries and model implementations\<close>

text \<open>
  What the file calls and does not define: the model constructors and their forward
  pass (with the gradient mode it is called in), the loss, one optimisation step (\<^verbatim>\<open>zero_grad\<close>, \<^verbatim>\<open>backward\<close>,
  \<^verbatim>\<open>step\<close>), the metrics of scikit-learn, Python's \<^verbatim>\<open>str\<close> on a float, and
  the two availability tests of torch.
\<close>

record env =
  construct :: "ctor_call \<Rightarrow> error + model"
  forward :: "grad_mode \<Rightarrow> model \<Rightarrow> model_input \<Rightarrow> error + prediction"
  criterion :: "logits \<Rightarrow> int list \<Rightarrow> real"
  optimizer_step :: "optimizer \<Rightarrow> model \<Rightarrow> model_input \<Rightarrow> int list \<Rightarrow> optimizer \<times> model"
  roc_auc_score :: "int list \<Rightarrow> real list \<Rightarrow> error + real"
  average_precision_score :: "int list \<Rightarrow> real list \<Rightarrow> error + real"
  accuracy_score :: "int list \<Rightarrow> nat list \<Rightarrow> real"
  classification_report :: "int list \<Rightarrow> nat list \<Rightarrow> (string \<times> json) list"
  str_float :: "real \<Rightarrow> string"
  cuda_is_available :: bool
  mps_is_available :: bool

subsection \<open>Text and files\<close>

text \<open>\<^verbatim>\<open>sep.join(xs)\<close>\<close>

fun join :: "string \<Rightarrow> string list \<Rightarrow> string" where
  "join sep [] = []"
| "join sep [x] = x"
| "join sep (x # y # ys) = x @ sep @ join sep (y # ys)"

text \<open>\<^verbatim>\<open>s.split(c)\<close> for a separator of one character.\<close>

fun split_on :: "char \<Rightarrow> string \<Rightarrow> string list" where
  "split_on c [] = [[]]"
| "split_on c (x # xs) =
     (if x = c then [] # split_on c xs
      else (case split_on c xs of [] \<Rightarrow> [[x]] | w # ws \<Rightarrow> (x # w) # ws))"

definition digit_char :: "nat \<Rightarrow> char" where
  "digit_char d = ''0123456789'' ! d"

text \<open>\<^verbatim>\<open>str(n)\<close> for a non-negative integer.\<close>

fun str_nat :: "nat \<Rightarrow> string" where
  "str_nat n = (if n < 10 then [digit_char n] else str_nat (n div 10) @ [digit_char (n mod 10)])"

declare str_nat.simps [simp del]

definition newline :: string where
  "newline = [CHR 0x0A]"

text \<open>\<^verbatim>\<open>open(path, "w").write(s)\<close> and \<^verbatim>\<open>open(path, "a").write(s)\<close>\<close>

definition write_text :: "fs \<Rightarrow> string \<Rightarrow> string \<Rightarrow> fs" where
  "write_text files path s = files(path \<mapsto> Text s)"

definition append_text :: "fs \<Rightarrow> string \<Rightarrow> string \<Rightarrow> fs" where
  "append_text files path s =
     (case files path of
        Some (Text t) \<Rightarrow> files(path \<mapsto> Text (t @ s))
      | _ \<Rightarrow> files(path \<mapsto> Text s))"

text \<open>\<^verbatim>\<open>torch.load(path)\<close>\<close>

definition torch_load :: "fs \<Rightarrow> string \<Rightarrow> error + real list" where
  "torch_load files path =
     (case files path of
        Some (Checkpoint sd) \<Rightarrow> Inr sd
      | Some _ \<Rightarrow> Inl (RuntimeError path)
      | None \<Rightarrow> Inl (FileNotFoundError path))"

text \<open>\<^verbatim>\<open>torch.save(sd, path)\<close>\<close>

definition torch_save :: "fs \<Rightarrow> real list \<Rightarrow> string \<Rightarrow> fs" where
  "torch_save files sd path = files(path \<mapsto> Checkpoint sd)"

definition log_path :: "string \<Rightarrow> string" where
  "log_path output_path = output_path @ ''/training_log.csv''"

definition checkpoint_path :: "string \<Rightarrow> string" where
  "checkpoint_path output_path = output_path @ ''/checkpoint.pt''"

definition curves_path :: "string \<Rightarrow> string" where
  "curves_path output_path = output_path @ ''/train_curves.jpg''"

definition results_path :: "string \<Rightarrow> string" where
  "results_path output_path = output_path @ ''/test_results.json''"

subsection \<open>The early stopping controller\<close>

text \<open>
  Modelled from the spec: the class \<^verbatim>\<open>EarlyStopping\<close> of
  \<^verbatim>\<open>models/early_stopper.py\<close>, which is not among the sources. Section 4.3 of the
  spec: the controller starts with no best value and the stop flag unset; a submitted
  value that is less than the best (or the first one) becomes the best, the model's
  parameters are written to the checkpoint path and the stall counter is reset;
  any other value increments the stall counter, and the stop flag is set once the
  counter reaches the patience.
\<close>

record EarlyStopping =
  es_patience :: int
  es_path :: string
  best :: "real option"
  stall_counter :: int
  stop_flag :: bool

text \<open>
  Modelled from the spec: the constructor of the absent class,
  \<^verbatim>\<open>EarlyStopping(patience=..., verbose=True, path=...)\<close>; initially there is no best
  value and the stop flag is unset.
\<close>

definition EarlyStopping_init :: "int \<Rightarrow> string \<Rightarrow> EarlyStopping" where
  "EarlyStopping_init patience path =
     \<lparr>es_patience = patience, es_path = path, best = None, stall_counter = 0, stop_flag = False\<rparr>"

text \<open>
  Modelled from the spec: the call \<^verbatim>\<open>early_stopping(score, model)\<close> of the absent
  class, one submission of a scalar. The checkpoint write is its only effect on the files.
\<close>

definition EarlyStopping_call :: "EarlyStopping \<Rightarrow> real \<Rightarrow> model \<Rightarrow> fs \<Rightarrow> EarlyStopping \<times> fs" where
  "EarlyStopping_call es score m files =
     (if (case best es of None \<Rightarrow> True | Some b \<Rightarrow> score < b)
      then (es\<lparr>best := Some score, stall_counter := 0\<rparr>, torch_save files (state_dict m) (es_path es))
      else (es\<lparr>stall_counter := stall_counter es + 1,
               stop_flag := (stop_flag es \<or> es_patience es \<le> stall_counter es + 1)\<rparr>, files))"

subsection \<open>The batch loops\<close>

text \<open>
  The device placement of a batch, written three times in the source (in the training,
  the validation and the test loop) with the same text:
  \<^verbatim>\<open>if model_type != "grud": data = data.to(device); ...\<close>
\<close>

definition batch_inputs :: "string \<Rightarrow> device \<Rightarrow> batch \<Rightarrow> model_input" where
  "batch_inputs model_type device b =
     (if model_type \<noteq> ''grud''
      then \<lparr>in_x = to device (b_data b), in_static = to device (b_static b),
            in_time = to device (b_times b), in_sensor_mask = to device (b_mask b),
            in_delta = to device (b_delta b)\<rparr>
      else \<lparr>in_x = b_data b, in_static = b_static b, in_time = b_times b,
            in_sensor_mask = b_mask b, in_delta = b_delta b\<rparr>)"

text \<open>
  The unpacking of a model's answer:
  \<^verbatim>\<open>if type(predictions) == tuple: predictions, recon_loss = predictions\<close> and
  \<^verbatim>\<open>else: recon_loss = 0\<close>. The validation and the test loop drop the second
  component.
\<close>

definition predictions_of :: "prediction \<Rightarrow> logits" where
  "predictions_of r = (case r of WithAux p a \<Rightarrow> p | Plain p \<Rightarrow> p)"

definition recon_loss_of :: "prediction \<Rightarrow> real" where
  "recon_loss_of r = (case r of WithAux p a \<Rightarrow> a | Plain p \<Rightarrow> 0)"

text \<open>
  The training loop over the batches of one epoch (lines 199 to 221). The state is the
  model, the optimizer and \<^verbatim>\<open>loss_list\<close>.
\<close>

fun train_batches ::
  "env \<Rightarrow> string \<Rightarrow> device \<Rightarrow> batch list \<Rightarrow> model \<times> optimizer \<times> real list
     \<Rightarrow> error + model \<times> optimizer \<times> real list" where
  "train_batches env model_type device [] acc = Inr acc"
| "train_batches env model_type device (b # bs) (m, opt, loss_list) =
     (case forward env Grad m (batch_inputs model_type device b) of
        Inl e \<Rightarrow> Inl e
      | Inr r \<Rightarrow>
          (let loss = criterion env (predictions_of r) (b_labels b) + recon_loss_of r;
               (opt', m') = optimizer_step env opt m (batch_inputs model_type device b) (b_labels b)
           in train_batches env model_type device bs (m', opt', loss_list @ [loss])))"

text \<open>
  \<^verbatim>\<open>np.mean(loss_list)\<close>. In \<^verbatim>\<open>train\<close> the list has one loss per training
  batch and is never empty: the probe has read a batch from the same loader.
\<close>

definition np_mean :: "real list \<Rightarrow> real" where
  "np_mean xs = sum_list xs / real (length xs)"

text \<open>
  The validation loop (lines 230 to 248), inside \<^verbatim>\<open>with torch.no_grad()\<close>. The state is \<^verbatim>\<open>labels_list\<close> and
  \<^verbatim>\<open>predictions_list\<close>.
\<close>

fun validation_batches ::
  "env \<Rightarrow> string \<Rightarrow> device \<Rightarrow> model \<Rightarrow> batch list \<Rightarrow> int list \<times> logits
     \<Rightarrow> error + int list \<times> logits" where
  "validation_batches env model_type device m [] acc = Inr acc"
| "validation_batches env model_type device m (b # bs) (labels_list, predictions_list) =
     (case forward env NoGrad m (batch_inputs model_type device b) of
        Inl e \<Rightarrow> Inl e
      | Inr r \<Rightarrow>
          validation_batches env model_type device m bs
            (labels_list @ b_labels b, predictions_list @ predictions_of r))"

text \<open>The test loop (lines 319 to 335), inside \<^verbatim>\<open>with torch.no_grad()\<close>.\<close>

fun test_batches ::
  "env \<Rightarrow> string \<Rightarrow> device \<Rightarrow> model \<Rightarrow> batch list \<Rightarrow> int list \<times> logits
     \<Rightarrow> error + int list \<times> logits" where
  "test_batches env model_type device m [] acc = Inr acc"
| "test_batches env model_type device m (b # bs) (labels_list, predictions_list) =
     (case forward env NoGrad m (batch_inputs model_type device b) of
        Inl e \<Rightarrow> Inl e
      | Inr r \<Rightarrow>
          test_batches env model_type device m bs
            (labels_list @ b_labels b, predictions_list @ predictions_of r))"

text \<open>\<^verbatim>\<open>torch.nn.functional.softmax(predictions_list, dim=1)\<close>\<close>

definition softmax_row :: "real \<times> real \<Rightarrow> real \<times> real" where
  "softmax_row r = (exp (fst r) / (exp (fst r) + exp (snd r)), exp (snd r) / (exp (fst r) + exp (snd r)))"

definition softmax :: "logits \<Rightarrow> (real \<times> real) list" where
  "softmax predictions_list = map softmax_row predictions_list"

text \<open>\<^verbatim>\<open>probs[:, 1]\<close>\<close>

definition column1 :: "(real \<times> real) list \<Rightarrow> real list" where
  "column1 probs = map snd probs"

text \<open>\<^verbatim>\<open>argmax(probs, dim=1)\<close>: the index of the larger entry, the first one on a tie.\<close>

definition argmax :: "(real \<times> real) list \<Rightarrow> nat list" where
  "argmax probs = map (\<lambda>r. if fst r < snd r then 1 else 0) probs"

subsection \<open>The data loaders\<close>

text \<open>
  A loader keeps the arguments it was built with and yields the batches that the
  collation function makes of consecutive chunks of the dataset; the last chunk may be
  short. The order in which a shuffling loader draws its samples is left out: every
  pass yields the batches in the order of the dataset. The datasets and the two
  collation functions come from \<^verbatim>\<open>mortality_part_preprocessing\<close>, which is not
  among the sources, so the collation function is a parameter.
\<close>

record DataLoader =
  dl_batch_size :: int
  dl_shuffle :: bool
  dl_num_workers :: nat
  dl_pin_memory :: bool
  dl_batches :: "batch list"

text \<open>Consecutive chunks of \<open>n\<close> elements; the last one holds what is left.\<close>

fun chunks :: "nat \<Rightarrow> 'a list \<Rightarrow> 'a list list" where
  "chunks n xs = (if n = 0 \<or> xs = [] then [] else take n xs # chunks n (drop n xs))"

declare chunks.simps [simp del]

text \<open>
  \<^verbatim>\<open>DataLoader(dataset, batch_size, shuffle=..., num_workers=16, collate_fn=..., pin_memory=True)\<close>.
  It builds the sampler first, which raises ValueError when a shuffling loader is given
  an empty dataset, and then the batch sampler, which raises ValueError for a batch size
  that is not positive.
\<close>

definition DataLoader_init ::
  "'s list \<Rightarrow> int \<Rightarrow> bool \<Rightarrow> ('s list \<Rightarrow> batch) \<Rightarrow> error + DataLoader" where
  "DataLoader_init dataset batch_size shuffle collate_fn =
     (if shuffle \<and> dataset = [] then Inl (ValueError ''num_samples should be a positive integer value'')
      else if batch_size \<le> 0 then Inl (ValueError ''batch_size should be a positive integer value'')
      else Inr \<lparr>dl_batch_size = batch_size, dl_shuffle = shuffle, dl_num_workers = 16,
                dl_pin_memory = True,
                dl_batches = map collate_fn (chunks (nat batch_size) dataset)\<rparr>)"

subsection \<open>The function train\<close>

text \<open>
  The probe of the first batch (lines 123 to 127, and again lines 304 to 308): the
  sequence length, the sensor count and the number of static attributes.
  \<^verbatim>\<open>next\<close> raises StopIteration on a loader with no batch.
\<close>

definition probe :: "DataLoader \<Rightarrow> error + nat \<times> nat \<times> nat" where
  "probe dataloader =
     (case dl_batches dataloader of
        [] \<Rightarrow> Inl StopIteration
      | test_batch # rest \<Rightarrow>
          (case shape_at (b_data test_batch) 2 of
             Inl e \<Rightarrow> Inl e
           | Inr max_seq_length \<Rightarrow>
               (case shape_at (b_data test_batch) 1 of
                  Inl e \<Rightarrow> Inl e
                | Inr sensor_count \<Rightarrow>
                    (case shape_at (b_static test_batch) 1 of
                       Inl e \<Rightarrow> Inl e
                     | Inr static_size \<Rightarrow> Inr (max_seq_length, sensor_count, static_size)))))"

text \<open>
  The choice of the model (lines 137 to 176). The chain of \<^verbatim>\<open>if\<close> and
  \<^verbatim>\<open>elif\<close> has no \<^verbatim>\<open>else\<close>: for any other identifier the variable
  \<^verbatim>\<open>model\<close> is never assigned, and its first use, \<^verbatim>\<open>model.parameters()\<close> on
  line 176, raises UnboundLocalError.
\<close>

definition build_model ::
  "env \<Rightarrow> string \<Rightarrow> device \<Rightarrow> model_args \<Rightarrow> nat \<Rightarrow> nat \<Rightarrow> nat \<Rightarrow> error + model" where
  "build_model env model_type device model_args max_seq_length sensor_count static_size =
     (if model_type = ''grud''
        then construct env (GRUDModel sensor_count static_size 2 device model_args)
      else if model_type = ''ipnets''
        then construct env (InterpolationPredictionModel 2 sensor_count model_args)
      else if model_type = ''seft''
        then construct env (DeepSetAttentionModel sensor_count 2 model_args)
      else if model_type = ''transformer''
        then construct env (EncoderClassifierRegular 2 device max_seq_length sensor_count
               static_size False model_args)
      else if model_type = ''mamba''
        then construct env (CustomMambaModel max_seq_length 2 static_size sensor_count model_args)
      else Inl (UnboundLocalError ''model''))"

definition log_header :: string where
  "log_header = join '','' [''epoch'', ''train_loss'', ''val_loss'', ''val_roc_auc_score''] @ newline"

record train_state =
  st_model :: model
  st_optimizer :: optimizer
  st_early_stopping :: EarlyStopping
  st_files :: fs
  st_val_loss :: "real option"
  st_epoch :: nat

text \<open>
  Lines 123 to 192: the probe, the model, the optimizer (which may refuse the learning
  rate or the model), the early stopping controller and the header of the training log. \<^verbatim>\<open>val_loss\<close> is not yet assigned, and no
  epoch has run.
\<close>

definition train_setup ::
  "env \<Rightarrow> DataLoader \<Rightarrow> string \<Rightarrow> int \<Rightarrow> device \<Rightarrow> string \<Rightarrow> real \<Rightarrow> model_args \<Rightarrow> fs
     \<Rightarrow> error + train_state" where
  "train_setup env train_dataloader output_path patience device model_type lr model_args files =
     (case probe train_dataloader of
        Inl e \<Rightarrow> Inl e
      | Inr (max_seq_length, sensor_count, static_size) \<Rightarrow>
          (case build_model env model_type device model_args max_seq_length sensor_count static_size of
             Inl e \<Rightarrow> Inl e
           | Inr m \<Rightarrow>
               (case Adam m lr of
                  Inl e \<Rightarrow> Inl e
                | Inr opt \<Rightarrow>
                    Inr \<lparr>st_model = m, st_optimizer = opt,
                         st_early_stopping = EarlyStopping_init patience (checkpoint_path output_path),
                         st_files = write_text files (log_path output_path) log_header,
                         st_val_loss = None, st_epoch = 0\<rparr>)))"

text \<open>
  What one epoch computes before it writes anything (lines 196 to 255). With no
  validation batch \<^verbatim>\<open>predictions_list\<close> is still the empty one-dimensional tensor of
  line 229, and \<^verbatim>\<open>softmax(predictions_list, dim=1)\<close> raises IndexError.
\<close>

record epoch_result =
  r_model :: model
  r_optimizer :: optimizer
  r_accum_loss :: real
  r_auc_score :: real
  r_aupr_score :: real
  r_val_loss :: real

definition epoch_compute ::
  "env \<Rightarrow> DataLoader \<Rightarrow> DataLoader \<Rightarrow> device \<Rightarrow> string \<Rightarrow> model \<Rightarrow> optimizer
     \<Rightarrow> error + epoch_result" where
  "epoch_compute env train_dataloader val_dataloader device model_type m opt =
     (case train_batches env model_type device (dl_batches train_dataloader)
             (model_to device (model_train m), opt, []) of
        Inl e \<Rightarrow> Inl e
      | Inr (m1, opt1, loss_list) \<Rightarrow>
          (let accum_loss = np_mean loss_list;
               m2 = model_to device (model_eval m1)
           in case validation_batches env model_type device m2 (dl_batches val_dataloader) ([], []) of
                Inl e \<Rightarrow> Inl e
              | Inr (labels_list, predictions_list) \<Rightarrow>
                  if dl_batches val_dataloader = [] then Inl IndexError
                  else
                  (let probs = softmax predictions_list
                   in case roc_auc_score env labels_list (column1 probs) of
                        Inl e \<Rightarrow> Inl e
                      | Inr auc_score \<Rightarrow>
                          (case average_precision_score env labels_list (column1 probs) of
                             Inl e \<Rightarrow> Inl e
                           | Inr aupr_score \<Rightarrow>
                               Inr \<lparr>r_model = m2, r_optimizer = opt1, r_accum_loss = accum_loss,
                                    r_auc_score = auc_score, r_aupr_score = aupr_score,
                                    r_val_loss = criterion env predictions_list labels_list\<rparr>))))"

text \<open>The row of the training log (lines 257 to 261); \<open>epoch\<close> counts from 0.\<close>

definition log_fields :: "env \<Rightarrow> nat \<Rightarrow> real \<Rightarrow> real \<Rightarrow> real \<Rightarrow> string list" where
  "log_fields env epoch accum_loss val_loss auc_score =
     [str_nat (epoch + 1), str_float env accum_loss, str_float env val_loss,
      str_float env auc_score]"

definition log_row :: "env \<Rightarrow> nat \<Rightarrow> real \<Rightarrow> real \<Rightarrow> real \<Rightarrow> string" where
  "log_row env epoch accum_loss val_loss auc_score =
     join '','' (log_fields env epoch accum_loss val_loss auc_score) @ newline"

text \<open>The text of a list of rows, each given by its fields.\<close>

definition csv_text :: "string list list \<Rightarrow> string" where
  "csv_text rows = concat (map (\<lambda>r. join '','' r @ newline) rows)"

text \<open>The submission to the early stopping controller (lines 266 to 273).\<close>

definition set_early_stopping ::
  "string \<Rightarrow> real \<Rightarrow> real \<Rightarrow> real \<Rightarrow> EarlyStopping \<Rightarrow> model \<Rightarrow> fs \<Rightarrow> EarlyStopping \<times> fs" where
  "set_early_stopping early_stop_criteria auc_score aupr_score val_loss early_stopping m files =
     (if early_stop_criteria = ''auroc''
        then EarlyStopping_call early_stopping (1 - auc_score) m files
      else if early_stop_criteria = ''auprc''
        then EarlyStopping_call early_stopping (1 - aupr_score) m files
      else if early_stop_criteria = ''auprc+auroc''
        then EarlyStopping_call early_stopping (1 - (aupr_score + auc_score)) m files
      else if early_stop_criteria = ''loss''
        then EarlyStopping_call early_stopping val_loss m files
      else (early_stopping, files))"

text \<open>The body of the epoch loop up to the test of the stop flag (lines 196 to 273).\<close>

definition train_epoch ::
  "env \<Rightarrow> DataLoader \<Rightarrow> DataLoader \<Rightarrow> string \<Rightarrow> device \<Rightarrow> string \<Rightarrow> string \<Rightarrow> train_state
     \<Rightarrow> error + train_state" where
  "train_epoch env train_dataloader val_dataloader output_path device model_type
       early_stop_criteria st =
     (case epoch_compute env train_dataloader val_dataloader device model_type
             (st_model st) (st_optimizer st) of
        Inl e \<Rightarrow> Inl e
      | Inr r \<Rightarrow>
          (let files1 = append_text (st_files st) (log_path output_path)
                          (log_row env (st_epoch st) (r_accum_loss r) (r_val_loss r) (r_auc_score r));
               (es, files2) = set_early_stopping early_stop_criteria (r_auc_score r)
                                (r_aupr_score r) (r_val_loss r) (st_early_stopping st)
                                (r_model r) files1
           in Inr \<lparr>st_model = r_model r, st_optimizer = r_optimizer r, st_early_stopping = es,
                   st_files = files2, st_val_loss = Some (r_val_loss r),
                   st_epoch = st_epoch st + 1\<rparr>))"

text \<open>
  \<^verbatim>\<open>for epoch in range(epochs)\<close> with its \<^verbatim>\<open>break\<close> (lines 194 to 277); the
  first argument is the number of epochs still to run. The result is the state the loop
  ended in and the error that ended it, if one did.
\<close>

fun epoch_loop ::
  "nat \<Rightarrow> env \<Rightarrow> DataLoader \<Rightarrow> DataLoader \<Rightarrow> string \<Rightarrow> device \<Rightarrow> string \<Rightarrow> string
     \<Rightarrow> train_state \<Rightarrow> error option \<times> train_state" where
  "epoch_loop 0 env train_dataloader val_dataloader output_path device model_type
       early_stop_criteria st = (None, st)"
| "epoch_loop (Suc n) env train_dataloader val_dataloader output_path device model_type
       early_stop_criteria st =
     (case train_epoch env train_dataloader val_dataloader output_path device model_type
             early_stop_criteria st of
        Inl e \<Rightarrow> (Some e, st)
      | Inr st' \<Rightarrow>
          if stop_flag (st_early_stopping st') then (None, st')
          else epoch_loop n env train_dataloader val_dataloader output_path device model_type
                 early_stop_criteria st')"

text \<open>
  Lines 280 to 292: the training log is read back, the curves are saved, and
  \<^verbatim>\<open>val_loss\<close> and the model are returned. \<^verbatim>\<open>val_loss\<close> is assigned in the
  body of the epoch loop only.
\<close>

definition train_finish :: "string \<Rightarrow> train_state \<Rightarrow> (error + real \<times> model) \<times> fs" where
  "train_finish output_path st =
     (case st_files st (log_path output_path) of
        Some (Text training_log) \<Rightarrow>
          (let files1 = (st_files st)(curves_path output_path \<mapsto> Figure training_log)
           in case st_val_loss st of
                None \<Rightarrow> (Inl (UnboundLocalError ''val_loss''), files1)
              | Some val_loss \<Rightarrow> (Inr (val_loss, st_model st), files1))
      | _ \<Rightarrow> (Inl (FileNotFoundError (log_path output_path)), st_files st))"

definition train ::
  "env \<Rightarrow> DataLoader \<Rightarrow> DataLoader \<Rightarrow> string \<Rightarrow> int \<Rightarrow> int \<Rightarrow> device \<Rightarrow> string \<Rightarrow> real
     \<Rightarrow> string \<Rightarrow> model_args \<Rightarrow> fs \<Rightarrow> (error + real \<times> model) \<times> fs" where
  "train env train_dataloader val_dataloader output_path epochs patience device model_type lr
       early_stop_criteria model_args files =
     (case train_setup env train_dataloader output_path patience device model_type lr
             model_args files of
        Inl e \<Rightarrow> (Inl e, files)
      | Inr st0 \<Rightarrow>
          (case epoch_loop (nat epochs) env train_dataloader val_dataloader output_path device
                  model_type early_stop_criteria st0 of
             (Some e, st) \<Rightarrow> (Inl e, st_files st)
           | (None, st) \<Rightarrow> train_finish output_path st))"

subsection \<open>The function test\<close>

text \<open>\<^verbatim>\<open>d[k] = v\<close> and \<^verbatim>\<open>d.update(other)\<close> on a dictionary kept in insertion order.\<close>

fun dict_set :: "'k \<Rightarrow> 'v \<Rightarrow> ('k \<times> 'v) list \<Rightarrow> ('k \<times> 'v) list" where
  "dict_set k v [] = [(k, v)]"
| "dict_set k v (kv # d) = (if fst kv = k then (k, v) # d else kv # dict_set k v d)"

definition dict_update :: "('k \<times> 'v) list \<Rightarrow> ('k \<times> 'v) list \<Rightarrow> ('k \<times> 'v) list" where
  "dict_update d other = foldl (\<lambda>acc kv. dict_set (fst kv) (snd kv) acc) d other"

text \<open>
  The confusion matrix is computed and printed only. The model is given by reference,
  and its parameters are replaced by those of the checkpoint before the pass.
\<close>

definition test ::
  "env \<Rightarrow> DataLoader \<Rightarrow> string \<Rightarrow> device \<Rightarrow> string \<Rightarrow> model \<Rightarrow> fs
     \<Rightarrow> (error + real \<times> real \<times> real \<times> real) \<times> fs" where
  "test env test_dataloader output_path device model_type m files =
     (case probe test_dataloader of
        Inl e \<Rightarrow> (Inl e, files)
      | Inr shapes \<Rightarrow>
          (case torch_load files (checkpoint_path output_path) of
             Inl e \<Rightarrow> (Inl e, files)
           | Inr sd \<Rightarrow>
               (let m1 = model_to device (model_eval (load_state_dict m sd))
                in case test_batches env model_type device m1 (dl_batches test_dataloader) ([], []) of
                     Inl e \<Rightarrow> (Inl e, files)
                   | Inr (labels_list, predictions_list) \<Rightarrow>
                       (let loss = criterion env predictions_list labels_list;
                            probs = softmax predictions_list;
                            results = classification_report env labels_list (argmax probs)
                        in case roc_auc_score env labels_list (column1 probs) of
                             Inl e \<Rightarrow> (Inl e, files)
                           | Inr auc_score \<Rightarrow>
                               (case average_precision_score env labels_list (column1 probs) of
                                  Inl e \<Rightarrow> (Inl e, files)
                                | Inr auprc_score \<Rightarrow>
                                    (let accuracy = accuracy_score env labels_list (argmax probs);
                                         test_metrics =
                                           dict_update
                                             [(''test_loss'', Num loss), (''accuracy'', Num accuracy),
                                              (''AUPRC'', Num auprc_score), (''AUROC'', Num auc_score)]
                                             results
                                     in (Inr (loss, accuracy, auprc_score, auc_score),
                                         files(results_path output_path \<mapsto> Json test_metrics))))))))"

subsection \<open>The function train_test\<close>

text \<open>Line 35: \<^verbatim>\<open>train_batch_size = batch_size // 2\<close>, Python's floor division.\<close>

definition train_batch_size :: "int \<Rightarrow> int" where
  "train_batch_size batch_size = batch_size div 2"

text \<open>Lines 40 to 42: the three loaders, in the order train, test, validation.\<close>

definition make_dataloaders ::
  "'p list \<Rightarrow> 's list \<Rightarrow> 's list \<Rightarrow> int \<Rightarrow> ('p list \<Rightarrow> batch) \<Rightarrow> ('s list \<Rightarrow> batch)
     \<Rightarrow> error + DataLoader \<times> DataLoader \<times> DataLoader" where
  "make_dataloaders train_pair val_data test_data batch_size train_collate_fn val_test_collate_fn =
     (case DataLoader_init train_pair (train_batch_size batch_size) True train_collate_fn of
        Inl e \<Rightarrow> Inl e
      | Inr train_dataloader \<Rightarrow>
          (case DataLoader_init test_data batch_size True val_test_collate_fn of
             Inl e \<Rightarrow> Inl e
           | Inr test_dataloader \<Rightarrow>
               (case DataLoader_init val_data batch_size False val_test_collate_fn of
                  Inl e \<Rightarrow> Inl e
                | Inr val_dataloader \<Rightarrow> Inr (train_dataloader, test_dataloader, val_dataloader))))"

text \<open>Lines 44 to 51.\<close>

definition assign_device :: "env \<Rightarrow> device" where
  "assign_device env =
     (if cuda_is_available env then CUDA else if mps_is_available env then MPS else CPU)"

definition train_test ::
  "env \<Rightarrow> 'p list \<Rightarrow> 's list \<Rightarrow> 's list \<Rightarrow> string \<Rightarrow> string \<Rightarrow> model_args \<Rightarrow> int \<Rightarrow> int \<Rightarrow> int
     \<Rightarrow> real \<Rightarrow> string \<Rightarrow> ('p list \<Rightarrow> batch) \<Rightarrow> ('s list \<Rightarrow> batch) \<Rightarrow> fs
     \<Rightarrow> (error + real \<times> real \<times> real \<times> real) \<times> fs" where
  "train_test env train_pair val_data test_data output_path model_type model_args batch_size
       epochs patience lr early_stop_criteria train_collate_fn val_test_collate_fn files =
     (case make_dataloaders train_pair val_data test_data batch_size train_collate_fn
             val_test_collate_fn of
        Inl e \<Rightarrow> (Inl e, files)
      | Inr (train_dataloader, test_dataloader, val_dataloader) \<Rightarrow>
          (let device = assign_device env
           in case train env train_dataloader val_dataloader output_path epochs patience device
                     model_type lr early_stop_criteria model_args files of
                (Inl e, files1) \<Rightarrow> (Inl e, files1)
              | (Inr (val_loss, m), files1) \<Rightarrow>
                  test env test_dataloader output_path device model_type m files1))"

subsection \<open>A small run\<close>

text \<open>
  One batch of one patient with two sensors, three time points and eight static
  attributes, a model that answers every call with the same logits, and metrics with
  fixed values: the concrete inputs at which the theorems below are instantiated.
\<close>

definition demo_tensor :: "nat list \<Rightarrow> tensor" where
  "demo_tensor s = \<lparr>shape = s, dev = CPU, content = []\<rparr>"

definition demo_batch :: batch where
  "demo_batch =
     \<lparr>b_data = demo_tensor [1, 2, 3], b_times = demo_tensor [1, 3],
      b_static = demo_tensor [1, 8], b_labels = [1],
      b_mask = demo_tensor [1, 2, 3], b_delta = demo_tensor [1, 2, 3]\<rparr>"

definition demo_model :: model where
  "demo_model = \<lparr>params = [0], training = True, placed = CPU\<rparr>"

definition demo_optimizer :: optimizer where
  "demo_optimizer = \<lparr>opt_lr = 1 / 10000, opt_state = []\<rparr>"

definition demo_env :: env where
  "demo_env =
     \<lparr>construct = (\<lambda>c. Inr demo_model),
      forward = (\<lambda>g m x. Inr (Plain [(0, 1)])),
      criterion = (\<lambda>p l. 1 / 2),
      optimizer_step = (\<lambda>opt m x l. (opt, m\<lparr>params := [1]\<rparr>)),
      roc_auc_score = (\<lambda>l p. Inr (3 / 4)),
      average_precision_score = (\<lambda>l p. Inr (1 / 4)),
      accuracy_score = (\<lambda>l p. 1),
      classification_report = (\<lambda>l p. [(''macro avg'', Obj [(''precision'', Num 1)])]),
      str_float = (\<lambda>x. ''0.5''),
      cuda_is_available = False,
      mps_is_available = True\<rparr>"

text \<open>A model that refuses every input tensor that is not on the accelerator.\<close>

definition strict_env :: env where
  "strict_env =
     demo_env\<lparr>forward := (\<lambda>g m x.
        if dev (in_x x) = CUDA \<and> dev (in_static x) = CUDA \<and> dev (in_time x) = CUDA
             \<and> dev (in_sensor_mask x) = CUDA \<and> dev (in_delta x) = CUDA
        then Inr (Plain [(0, 1)]) else Inl (RuntimeError ''expected a CUDA tensor''))\<rparr>"

text \<open>A model that refuses every call that records gradients.\<close>

definition nograd_env :: env where
  "nograd_env =
     demo_env\<lparr>forward := (\<lambda>g m x.
        if g = NoGrad then Inr (Plain [(0, 1)]) else Inl (RuntimeError ''gradients are recorded''))\<rparr>"

definition demo_loader :: DataLoader where
  "demo_loader =
     \<lparr>dl_batch_size = 32, dl_shuffle = False, dl_num_workers = 16, dl_pin_memory = True,
      dl_batches = [demo_batch]\<rparr>"

definition demo_state0 :: train_state where
  "demo_state0 = \<lparr>st_model = demo_model, st_optimizer = demo_optimizer,
            st_early_stopping = EarlyStopping_init 5 (checkpoint_path ''run''),
            st_files = write_text Map.empty (log_path ''run'') log_header,
            st_val_loss = None, st_epoch = 0\<rparr>"

definition demo_state1 :: train_state where
  "demo_state1 = \<lparr>st_model = \<lparr>params = [1], training = False, placed = CPU\<rparr>,
            st_optimizer = demo_optimizer,
            st_early_stopping = \<lparr>es_patience = 5, es_path = checkpoint_path ''run'',
               best = Some (1 / 4), stall_counter = 0, stop_flag = False\<rparr>,
            st_files = [log_path ''run'' \<mapsto> Text (log_header @ ''1,0.5,0.5,0.5'' @ newline),
                        checkpoint_path ''run'' \<mapsto> Checkpoint [1]],
            st_val_loss = Some (1 / 2), st_epoch = 1\<rparr>"

section \<open>Verification\<close>

subsection \<open>Auxiliary facts\<close>

text \<open>The chunks of a dataset.\<close>

lemma chunks_length: "c \<in> set (chunks n xs) \<Longrightarrow> c \<noteq> [] \<and> length c \<le> n"
proof (induction n xs rule: chunks.induct)
  case (1 n xs)
  show ?case
  proof (cases "n = 0 \<or> xs = []")
    case True
    with "1.prems" show ?thesis by (simp add: chunks.simps [of n xs])
  next
    case False
    with "1.prems" have "c = take n xs \<or> c \<in> set (chunks n (drop n xs))"
      by (simp add: chunks.simps [of n xs])
    then show ?thesis
    proof
      assume "c = take n xs"
      with False show ?thesis by simp
    next
      assume "c \<in> set (chunks n (drop n xs))"
      with False "1.IH" show ?thesis by simp
    qed
  qed
qed

lemma chunks_short: "0 < n \<Longrightarrow> xs \<noteq> [] \<Longrightarrow> length xs \<le> n \<Longrightarrow> chunks n xs = [xs]"
  by (subst chunks.simps) (simp add: chunks.simps [of n "[]"])

text \<open>The setup of \<^verbatim>\<open>train\<close>, in general and in the small run.\<close>

lemma build_model_unknown:
  "model_type \<notin> {''grud'', ''ipnets'', ''seft'', ''transformer'', ''mamba''} \<Longrightarrow>
   build_model env model_type device model_args t f s = Inl (UnboundLocalError ''model'')"
  by (simp add: build_model_def)

lemma probe_demo_loader: "probe demo_loader = Inr (3, 2, 8)"
  by (simp add: probe_def demo_loader_def demo_batch_def demo_tensor_def shape_at_def)

lemma train_setup_state:
  "train_setup env tr out patience device mt lr margs files = Inr st0 \<Longrightarrow>
   st_val_loss st0 = None \<and> st_epoch st0 = 0 \<and>
   st_files st0 = write_text files (log_path out) log_header \<and>
   st_early_stopping st0 = EarlyStopping_init patience (checkpoint_path out)"
  by (auto simp add: train_setup_def split: sum.splits prod.splits)

lemma demo_Adam: "0 \<le> lr \<Longrightarrow> Adam demo_model lr = Inr \<lparr>opt_lr = lr, opt_state = []\<rparr>"
  by (simp add: Adam_def demo_model_def)

lemma demo_setup:
  "train_setup demo_env demo_loader ''run'' 5 CPU ''mamba'' (1 / 10000) [] Map.empty
     = Inr \<lparr>st_model = demo_model, st_optimizer = demo_optimizer,
            st_early_stopping = EarlyStopping_init 5 (checkpoint_path ''run''),
            st_files = write_text Map.empty (log_path ''run'') log_header,
            st_val_loss = None, st_epoch = 0\<rparr>"
  by (simp add: train_setup_def probe_demo_loader build_model_def demo_env_def demo_Adam
      demo_optimizer_def)

lemma demo_epoch_compute:
  "epoch_compute demo_env demo_loader demo_loader device mt m opt
     = Inr \<lparr>r_model = \<lparr>params = [1], training = False, placed = device\<rparr>, r_optimizer = opt,
            r_accum_loss = 1 / 2, r_auc_score = 3 / 4, r_aupr_score = 1 / 4, r_val_loss = 1 / 2\<rparr>"
  by (cases m) (simp add: epoch_compute_def demo_env_def demo_loader_def model_to_def
      model_train_def model_eval_def np_mean_def predictions_of_def recon_loss_of_def)

lemma str_nat_1: "str_nat (Suc 0) = ''1''"
  by (simp add: str_nat.simps [of "Suc 0"] digit_char_def)

lemma demo_str_float: "str_float demo_env x = ''0.5''"
  by (simp add: demo_env_def)

lemma demo_train_epoch:
  "train_epoch demo_env demo_loader demo_loader ''run'' CPU ''mamba'' ''auroc'' demo_state0
     = Inr \<lparr>st_model = \<lparr>params = [1], training = False, placed = CPU\<rparr>,
            st_optimizer = demo_optimizer,
            st_early_stopping = \<lparr>es_patience = 5, es_path = checkpoint_path ''run'',
               best = Some (1 / 4), stall_counter = 0, stop_flag = False\<rparr>,
            st_files = [log_path ''run'' \<mapsto> Text (log_header @ ''1,0.5,0.5,0.5'' @ newline),
                        checkpoint_path ''run'' \<mapsto> Checkpoint [1]],
            st_val_loss = Some (1 / 2), st_epoch = 1\<rparr>"
  by (simp add: train_epoch_def demo_state0_def demo_epoch_compute set_early_stopping_def
      EarlyStopping_call_def EarlyStopping_init_def append_text_def write_text_def
      torch_save_def state_dict_def log_row_def log_fields_def str_nat_1 demo_str_float)

lemma demo_train_epoch1:
  "train_epoch demo_env demo_loader demo_loader ''run'' CPU ''mamba'' ''auroc'' demo_state0
     = Inr demo_state1"
  by (simp add: demo_train_epoch demo_state1_def)

text \<open>What one epoch does to the controller and to the files.\<close>

lemma set_early_stopping_unknown:
  "crit \<notin> {''auroc'', ''auprc'', ''auprc+auroc'', ''loss''} \<Longrightarrow>
   set_early_stopping crit a p v es m files = (es, files)"
  by (simp add: set_early_stopping_def)

lemma append_text_other: "p \<noteq> q \<Longrightarrow> append_text files q s p = files p"
  by (simp add: append_text_def split: option.splits file_content.splits)

lemma append_text_same:
  "files q = Some (Text t) \<Longrightarrow> append_text files q s q = Some (Text (t @ s))"
  by (simp add: append_text_def)

lemma EarlyStopping_call_path: "es_path (fst (EarlyStopping_call es s m files)) = es_path es"
  by (simp add: EarlyStopping_call_def)

lemma EarlyStopping_call_files:
  "p \<noteq> es_path es \<Longrightarrow> snd (EarlyStopping_call es s m files) p = files p"
  by (simp add: EarlyStopping_call_def torch_save_def)

lemma set_early_stopping_path:
  "es_path (fst (set_early_stopping crit a p v es m files)) = es_path es"
  by (simp add: set_early_stopping_def EarlyStopping_call_path)

lemma set_early_stopping_files:
  "q \<noteq> es_path es \<Longrightarrow> snd (set_early_stopping crit a p v es m files) q = files q"
  by (simp add: set_early_stopping_def EarlyStopping_call_files)

lemma train_epoch_Inl:
  "epoch_compute env tr va device mt (st_model st) (st_optimizer st) = Inl e \<Longrightarrow>
   train_epoch env tr va out device mt crit st = Inl e"
  by (simp add: train_epoch_def)

lemma train_epoch_Inr:
  "epoch_compute env tr va device mt (st_model st) (st_optimizer st) = Inr r \<Longrightarrow>
   train_epoch env tr va out device mt crit st =
     Inr \<lparr>st_model = r_model r, st_optimizer = r_optimizer r,
          st_early_stopping =
            fst (set_early_stopping crit (r_auc_score r) (r_aupr_score r) (r_val_loss r)
                   (st_early_stopping st) (r_model r)
                   (append_text (st_files st) (log_path out)
                      (log_row env (st_epoch st) (r_accum_loss r) (r_val_loss r) (r_auc_score r)))),
          st_files =
            snd (set_early_stopping crit (r_auc_score r) (r_aupr_score r) (r_val_loss r)
                   (st_early_stopping st) (r_model r)
                   (append_text (st_files st) (log_path out)
                      (log_row env (st_epoch st) (r_accum_loss r) (r_val_loss r) (r_auc_score r)))),
          st_val_loss = Some (r_val_loss r), st_epoch = Suc (st_epoch st)\<rparr>"
  by (simp add: train_epoch_def Let_def split: prod.splits)

lemma train_epoch_succeeds:
  "epoch_compute env tr va device mt (st_model st) (st_optimizer st) = Inr r \<Longrightarrow>
   \<exists>st'. train_epoch env tr va out device mt crit st = Inr st'"
  by (simp add: train_epoch_def Let_def split: prod.splits)

lemma train_epoch_unknown:
  assumes "crit \<notin> {''auroc'', ''auprc'', ''auprc+auroc'', ''loss''}"
    and "train_epoch env tr va out device mt crit st = Inr st'"
  shows "st_early_stopping st' = st_early_stopping st \<and>
         (\<forall>p. p \<noteq> log_path out \<longrightarrow> st_files st' p = st_files st p) \<and>
         st_epoch st' = Suc (st_epoch st)"
proof (cases "epoch_compute env tr va device mt (st_model st) (st_optimizer st)")
  case (Inl e)
  with assms(2) show ?thesis by (simp add: train_epoch_Inl)
next
  case (Inr r)
  from train_epoch_Inr [OF Inr, of out crit] assms
  show ?thesis by (auto simp add: set_early_stopping_unknown append_text_other)
qed

lemma epoch_loop_unknown:
  assumes "crit \<notin> {''auroc'', ''auprc'', ''auprc+auroc'', ''loss''}"
  shows "epoch_loop n env tr va out device mt crit st = (err, st') \<Longrightarrow>
         st_early_stopping st' = st_early_stopping st \<and>
         (\<forall>p. p \<noteq> log_path out \<longrightarrow> st_files st' p = st_files st p) \<and>
         (err = None \<and> \<not> stop_flag (st_early_stopping st) \<longrightarrow> st_epoch st' = st_epoch st + n) \<and>
         (\<forall>e. err = Some e \<longrightarrow>
            epoch_compute env tr va device mt (st_model st') (st_optimizer st') = Inl e)"
proof (induction n arbitrary: st)
  case 0
  then show ?case by simp
next
  case (Suc n)
  show ?case
  proof (cases "train_epoch env tr va out device mt crit st")
    case (Inl e)
    with Suc.prems have "err = Some e" "st' = st" by simp_all
    moreover from Inl have "epoch_compute env tr va device mt (st_model st) (st_optimizer st) = Inl e"
      by (simp add: train_epoch_def Let_def split: sum.splits prod.splits)
    ultimately show ?thesis by simp
  next
    case (Inr st1)
    from train_epoch_unknown [OF assms Inr]
    have k: "st_early_stopping st1 = st_early_stopping st"
      "\<forall>p. p \<noteq> log_path out \<longrightarrow> st_files st1 p = st_files st p"
      "st_epoch st1 = Suc (st_epoch st)" by simp_all
    show ?thesis
    proof (cases "stop_flag (st_early_stopping st1)")
      case True
      with Suc.prems Inr have "err = None" "st' = st1" by simp_all
      with k True show ?thesis by simp
    next
      case False
      with Suc.prems Inr have "epoch_loop n env tr va out device mt crit st1 = (err, st')"
        by simp
      from Suc.IH [OF this] k show ?thesis by simp
    qed
  qed
qed

lemma log_path_neq_checkpoint_path: "checkpoint_path out \<noteq> log_path out"
  by (simp add: log_path_def checkpoint_path_def)

lemma log_path_neq_curves_path: "curves_path out \<noteq> log_path out"
  by (simp add: log_path_def curves_path_def)

lemma demo_setup0:
  "train_setup demo_env demo_loader ''run'' 5 CPU ''mamba'' (1 / 10000) [] Map.empty = Inr demo_state0"
  by (simp add: demo_setup demo_state0_def)

lemma demo_loop_unknown:
  "\<exists>st'. epoch_loop (nat 2) demo_env demo_loader demo_loader ''run'' CPU ''mamba'' ''f1'' demo_state0
          = (None, st')"
proof -
  have n: "nat 2 = Suc (Suc 0)" by simp
  show ?thesis
    unfolding n
    by (simp add: train_epoch_Inr [OF demo_epoch_compute] set_early_stopping_def
        demo_state0_def EarlyStopping_init_def)
qed

text \<open>Joining and splitting the fields of a row.\<close>

lemma split_on_none: "c \<notin> set xs \<Longrightarrow> split_on c xs = [xs]"
  by (induction xs) auto

lemma split_on_append: "c \<notin> set xs \<Longrightarrow> split_on c (xs @ c # ys) = xs # split_on c ys"
  by (induction xs) auto

lemma split_on_join:
  "fs \<noteq> [] \<Longrightarrow> \<forall>f \<in> set fs. c \<notin> set f \<Longrightarrow> split_on c (join [c] fs) = fs"
proof (induction "[c]" fs rule: join.induct)
  case 1
  then show ?case by simp
next
  case (2 x)
  then show ?case by (simp add: split_on_none)
next
  case (3 x y ys)
  then show ?case by (simp add: split_on_append)
qed

lemma digit_char_in: "d < 10 \<Longrightarrow> digit_char d \<in> set ''0123456789''"
  unfolding digit_char_def by (rule nth_mem) simp

lemma str_nat_digits: "set (str_nat n) \<subseteq> set ''0123456789''"
proof (induction n rule: str_nat.induct)
  case (1 n)
  show ?case
  proof (cases "n < 10")
    case True
    then show ?thesis using digit_char_in [of n] by (simp add: str_nat.simps [of n])
  next
    case False
    have "n mod 10 < 10" by simp
    from digit_char_in [OF this] "1.IH" [OF False] False
    show ?thesis by (simp add: str_nat.simps [of n])
  qed
qed

lemma str_nat_no_comma: "CHR '','' \<notin> set (str_nat n)"
  using str_nat_digits [of n] by auto

lemma log_fields_split:
  "\<forall>x. CHR '','' \<notin> set (str_float env x) \<Longrightarrow>
   split_on CHR '','' (join '','' (log_fields env i a v u)) = log_fields env i a v u"
  by (rule split_on_join) (simp_all add: log_fields_def str_nat_no_comma)

lemma log_header_text: "log_header = ''epoch,train_loss,val_loss,val_roc_auc_score'' @ newline"
  by (simp add: log_header_def)

text \<open>The training log along the epoch loop.\<close>

lemma csv_text_snoc: "csv_text (rows @ [r]) = csv_text rows @ join '','' r @ newline"
  by (simp add: csv_text_def)

lemma train_batches_length:
  "train_batches env mt device bs (m, opt, ll) = Inr (m', opt', ll') \<Longrightarrow>
   length ll' = length ll + length bs"
proof (induction bs arbitrary: m opt ll)
  case Nil
  then show ?case by simp
next
  case (Cons b bs)
  show ?case
  proof (cases "forward env Grad m (batch_inputs mt device b)")
    case (Inl e)
    with Cons.prems show ?thesis by simp
  next
    case (Inr r)
    obtain opt1 m1 where o: "optimizer_step env opt m (batch_inputs mt device b) (b_labels b) = (opt1, m1)"
      by (cases "optimizer_step env opt m (batch_inputs mt device b) (b_labels b)") auto
    from Cons.prems Inr o
    have "train_batches env mt device bs
            (m1, opt1, ll @ [criterion env (predictions_of r) (b_labels b) + recon_loss_of r])
          = Inr (m', opt', ll')" by simp
    from Cons.IH [OF this] show ?thesis by simp
  qed
qed

lemma epoch_compute_accum_loss:
  assumes "epoch_compute env tr va device mt m opt = Inr r"
  shows "\<exists>m1 opt1 loss_list.
           train_batches env mt device (dl_batches tr) (model_to device (model_train m), opt, [])
             = Inr (m1, opt1, loss_list) \<and>
           length loss_list = length (dl_batches tr) \<and>
           r_accum_loss r = np_mean loss_list"
proof (cases "train_batches env mt device (dl_batches tr) (model_to device (model_train m), opt, [])")
  case (Inl e)
  with assms show ?thesis by (simp add: epoch_compute_def)
next
  case (Inr res)
  obtain m1 opt1 loss_list where res: "res = (m1, opt1, loss_list)" by (cases res) auto
  from train_batches_length [OF Inr [unfolded res]] have "length loss_list = length (dl_batches tr)"
    by simp
  moreover from assms Inr res have "r_accum_loss r = np_mean loss_list"
    by (auto simp add: epoch_compute_def Let_def split: sum.splits prod.splits if_splits)
  ultimately show ?thesis using Inr res by simp
qed

lemma train_epoch_log:
  assumes "epoch_compute env tr va device mt (st_model st) (st_optimizer st) = Inr r"
    and "es_path (st_early_stopping st) \<noteq> log_path out"
    and "st_files st (log_path out) = Some (Text t)"
    and "train_epoch env tr va out device mt crit st = Inr st'"
  shows "st_files st' (log_path out) =
           Some (Text (t @ join '','' (log_fields env (st_epoch st) (r_accum_loss r)
                                        (r_val_loss r) (r_auc_score r)) @ newline)) \<and>
         st_epoch st' = Suc (st_epoch st) \<and>
         es_path (st_early_stopping st') = es_path (st_early_stopping st)"
proof -
  from assms(2) have "log_path out \<noteq> es_path (st_early_stopping st)" by simp
  with train_epoch_Inr [OF assms(1), of out crit] assms(3,4) show ?thesis
    by (auto simp add: set_early_stopping_files set_early_stopping_path append_text_same log_row_def)
qed

lemma epoch_loop_log:
  "epoch_loop n env tr va out device mt crit st = (err, st') \<Longrightarrow>
   es_path (st_early_stopping st) \<noteq> log_path out \<Longrightarrow>
   st_files st (log_path out) = Some (Text (log_header @ csv_text rows)) \<Longrightarrow>
   length rows = st_epoch st \<Longrightarrow>
   (\<forall>i<length rows. \<exists>a v u. rows ! i = log_fields env i a v u) \<Longrightarrow>
   \<exists>rows'. st_files st' (log_path out) = Some (Text (log_header @ csv_text rows')) \<and>
           length rows' = st_epoch st' \<and>
           (\<forall>i<length rows'. \<exists>a v u. rows' ! i = log_fields env i a v u) \<and>
           st_epoch st' \<le> st_epoch st + n"
proof (induction n arbitrary: st rows)
  case 0
  then show ?case by auto
next
  case (Suc n)
  show ?case
  proof (cases "epoch_compute env tr va device mt (st_model st) (st_optimizer st)")
    case (Inl e)
    with Suc.prems(1) have "st' = st" by (simp add: train_epoch_Inl)
    with Suc.prems show ?thesis by auto
  next
    case (Inr r)
    from train_epoch_succeeds [OF Inr] obtain st1
      where st1: "train_epoch env tr va out device mt crit st = Inr st1" by blast
    let ?row = "log_fields env (st_epoch st) (r_accum_loss r) (r_val_loss r) (r_auc_score r)"
    from train_epoch_log [OF Inr Suc.prems(2) Suc.prems(3) st1]
    have f: "st_files st1 (log_path out) = Some (Text (log_header @ csv_text (rows @ [?row])))"
      and e: "st_epoch st1 = Suc (st_epoch st)"
      and p: "es_path (st_early_stopping st1) \<noteq> log_path out"
      using Suc.prems(2) by (simp_all add: csv_text_snoc)
    from e Suc.prems(4) have len: "length (rows @ [?row]) = st_epoch st1" by simp
    have rows1: "\<forall>i<length (rows @ [?row]). \<exists>a v u. (rows @ [?row]) ! i = log_fields env i a v u"
    proof (intro allI impI)
      fix i assume "i < length (rows @ [?row])"
      then consider "i < length rows" | "i = length rows" by fastforce
      then show "\<exists>a v u. (rows @ [?row]) ! i = log_fields env i a v u"
      proof cases
        case 1
        with Suc.prems(5) show ?thesis by (simp add: nth_append)
      next
        case 2
        with Suc.prems(4) show ?thesis by (auto simp add: nth_append)
      qed
    qed
    show ?thesis
    proof (cases "stop_flag (st_early_stopping st1)")
      case True
      with Suc.prems(1) st1 have "st' = st1" by simp
      with f len rows1 e show ?thesis by (intro exI [of _ "rows @ [?row]"]) simp
    next
      case False
      with Suc.prems(1) st1 have "epoch_loop n env tr va out device mt crit st1 = (err, st')"
        by simp
      from Suc.IH [OF this p f len rows1] e show ?thesis by auto
    qed
  qed
qed

lemma train_log_kept:
  assumes "train_setup env tr out patience device mt lr margs files = Inr st0"
    and "epoch_loop (nat epochs) env tr va out device mt crit st0 = (err, st)"
  shows "snd (train env tr va out epochs patience device mt lr crit margs files) (log_path out)
           = st_files st (log_path out)"
proof (cases err)
  case None
  with assms show ?thesis
    using log_path_neq_curves_path [of out]
    by (auto simp add: train_def train_finish_def Let_def
        split: option.splits file_content.splits)
next
  case (Some e)
  with assms show ?thesis by (simp add: train_def)
qed

lemma str_nat_2: "str_nat (Suc (Suc 0)) = ''2''"
  by (simp add: str_nat.simps [of "Suc (Suc 0)"] digit_char_def)

lemma demo_loop_auroc:
  "\<exists>st. epoch_loop (nat 2) demo_env demo_loader demo_loader ''run'' CPU ''mamba'' ''auroc'' demo_state0
          = (None, st) \<and>
        st_epoch st = 2 \<and>
        st_files st (log_path ''run'') =
          Some (Text (''epoch,train_loss,val_loss,val_roc_auc_score'' @ newline @
                      ''1,0.5,0.5,0.5'' @ newline @ ''2,0.5,0.5,0.5'' @ newline))"
proof -
  have n: "nat 2 = Suc (Suc 0)" by simp
  show ?thesis
    unfolding n
    by (simp add: train_epoch_Inr [OF demo_epoch_compute] set_early_stopping_def
        demo_state0_def EarlyStopping_init_def EarlyStopping_call_def append_text_def
        write_text_def torch_save_def log_row_def log_fields_def str_nat_1 str_nat_2
        demo_str_float log_path_neq_checkpoint_path [THEN not_sym] log_header_text)
qed

text \<open>The validation and the test loop call the model once per batch, in order.\<close>

lemma validation_batches_run:
  "validation_batches env mt device m bs (ls, ps) = Inr (ls', ps') \<Longrightarrow>
   \<exists>outs. list_all2 (\<lambda>b y. forward env NoGrad m (batch_inputs mt device b) = Inr y) bs outs \<and>
          ls' = ls @ concat (map b_labels bs) \<and>
          ps' = ps @ concat (map predictions_of outs)"
proof (induction bs arbitrary: ls ps)
  case Nil
  then show ?case by simp
next
  case (Cons b bs)
  show ?case
  proof (cases "forward env NoGrad m (batch_inputs mt device b)")
    case (Inl e)
    with Cons.prems show ?thesis by simp
  next
    case (Inr y)
    with Cons.prems
    have "validation_batches env mt device m bs (ls @ b_labels b, ps @ predictions_of y)
            = Inr (ls', ps')" by simp
    from Cons.IH [OF this] obtain outs where
      "list_all2 (\<lambda>b y. forward env NoGrad m (batch_inputs mt device b) = Inr y) bs outs"
      "ls' = (ls @ b_labels b) @ concat (map b_labels bs)"
      "ps' = (ps @ predictions_of y) @ concat (map predictions_of outs)" by blast
    with Inr show ?thesis by (intro exI [of _ "y # outs"]) simp
  qed
qed

lemma test_batches_run:
  "test_batches env mt device m bs (ls, ps) = Inr (ls', ps') \<Longrightarrow>
   \<exists>outs. list_all2 (\<lambda>b y. forward env NoGrad m (batch_inputs mt device b) = Inr y) bs outs \<and>
          ls' = ls @ concat (map b_labels bs) \<and>
          ps' = ps @ concat (map predictions_of outs)"
proof (induction bs arbitrary: ls ps)
  case Nil
  then show ?case by simp
next
  case (Cons b bs)
  show ?case
  proof (cases "forward env NoGrad m (batch_inputs mt device b)")
    case (Inl e)
    with Cons.prems show ?thesis by simp
  next
    case (Inr y)
    with Cons.prems
    have "test_batches env mt device m bs (ls @ b_labels b, ps @ predictions_of y)
            = Inr (ls', ps')" by simp
    from Cons.IH [OF this] obtain outs where
      "list_all2 (\<lambda>b y. forward env NoGrad m (batch_inputs mt device b) = Inr y) bs outs"
      "ls' = (ls @ b_labels b) @ concat (map b_labels bs)"
      "ps' = (ps @ predictions_of y) @ concat (map predictions_of outs)" by blast
    with Inr show ?thesis by (intro exI [of _ "y # outs"]) simp
  qed
qed

text \<open>The softmax over two classes.\<close>

lemma exp_sum_pos: "0 < exp (a :: real) + exp b"
  by (simp add: add_pos_pos)

lemma softmax_row_props:
  "0 < fst (softmax_row r) \<and> 0 < snd (softmax_row r) \<and> fst (softmax_row r) + snd (softmax_row r) = 1"
proof -
  have p: "0 < exp (fst r) + exp (snd r)" by (rule exp_sum_pos)
  then have "exp (fst r) / (exp (fst r) + exp (snd r)) + exp (snd r) / (exp (fst r) + exp (snd r)) = 1"
    by (simp add: add_divide_distrib [symmetric])
  with p show ?thesis by (simp add: softmax_row_def)
qed

lemma column1_softmax:
  "column1 (softmax ps) = map (\<lambda>(a, b). exp b / (exp a + exp b)) ps"
  by (simp add: column1_def softmax_def softmax_row_def case_prod_beta)

text \<open>The training loop calls the model and the optimizer once per batch, in order.\<close>

lemma train_batches_run:
  "train_batches env mt device bs (m, opt, ll) = Inr (m', opt', ll') \<Longrightarrow>
   \<exists>sts outs. length sts = Suc (length bs) \<and> length outs = length bs \<and>
     sts ! 0 = (m, opt) \<and> sts ! length bs = (m', opt') \<and>
     (\<forall>i<length bs.
        forward env Grad (fst (sts ! i)) (batch_inputs mt device (bs ! i)) = Inr (outs ! i) \<and>
        optimizer_step env (snd (sts ! i)) (fst (sts ! i)) (batch_inputs mt device (bs ! i))
            (b_labels (bs ! i))
          = (snd (sts ! Suc i), fst (sts ! Suc i))) \<and>
     ll' = ll @ map (\<lambda>(b, y). criterion env (predictions_of y) (b_labels b) + recon_loss_of y)
                  (zip bs outs)"
proof (induction bs arbitrary: m opt ll)
  case Nil
  then show ?case by (intro exI [of _ "[(m, opt)]"] exI [of _ "[]"]) simp
next
  case (Cons b bs)
  show ?case
  proof (cases "forward env Grad m (batch_inputs mt device b)")
    case (Inl e)
    with Cons.prems show ?thesis by simp
  next
    case (Inr y)
    obtain opt1 m1 where o: "optimizer_step env opt m (batch_inputs mt device b) (b_labels b) = (opt1, m1)"
      by (cases "optimizer_step env opt m (batch_inputs mt device b) (b_labels b)") auto
    from Cons.prems Inr o
    have "train_batches env mt device bs
            (m1, opt1, ll @ [criterion env (predictions_of y) (b_labels b) + recon_loss_of y])
          = Inr (m', opt', ll')" by simp
    from Cons.IH [OF this] obtain sts outs where
      len: "length sts = Suc (length bs)" "length outs = length bs"
      and ends: "sts ! 0 = (m1, opt1)" "sts ! length bs = (m', opt')"
      and steps: "\<forall>i<length bs.
        forward env Grad (fst (sts ! i)) (batch_inputs mt device (bs ! i)) = Inr (outs ! i) \<and>
        optimizer_step env (snd (sts ! i)) (fst (sts ! i)) (batch_inputs mt device (bs ! i))
            (b_labels (bs ! i))
          = (snd (sts ! Suc i), fst (sts ! Suc i))"
      and ll': "ll' = (ll @ [criterion env (predictions_of y) (b_labels b) + recon_loss_of y]) @
                 map (\<lambda>(b, y). criterion env (predictions_of y) (b_labels b) + recon_loss_of y)
                   (zip bs outs)"
      by blast
    have steps': "\<forall>i<length (b # bs).
        forward env Grad (fst (((m, opt) # sts) ! i)) (batch_inputs mt device ((b # bs) ! i))
          = Inr ((y # outs) ! i) \<and>
        optimizer_step env (snd (((m, opt) # sts) ! i)) (fst (((m, opt) # sts) ! i))
            (batch_inputs mt device ((b # bs) ! i)) (b_labels ((b # bs) ! i))
          = (snd (((m, opt) # sts) ! Suc i), fst (((m, opt) # sts) ! Suc i))"
    proof (intro allI impI)
      fix i assume i: "i < length (b # bs)"
      show "forward env Grad (fst (((m, opt) # sts) ! i)) (batch_inputs mt device ((b # bs) ! i))
          = Inr ((y # outs) ! i) \<and>
        optimizer_step env (snd (((m, opt) # sts) ! i)) (fst (((m, opt) # sts) ! i))
            (batch_inputs mt device ((b # bs) ! i)) (b_labels ((b # bs) ! i))
          = (snd (((m, opt) # sts) ! Suc i), fst (((m, opt) # sts) ! Suc i))"
      proof (cases i)
        case 0
        with Inr o ends(1) show ?thesis by simp
      next
        case (Suc j)
        with i have "j < length bs" by simp
        with steps Suc show ?thesis by simp
      qed
    qed
    show ?thesis
      apply (intro exI [of _ "(m, opt) # sts"] exI [of _ "y # outs"])
      apply (intro conjI steps')
      using len ends ll' by simp_all
  qed
qed

lemma train_batches_fail:
  "train_batches env mt device bs (m, opt, ll) = Inl e \<Longrightarrow>
   \<exists>b \<in> set bs. \<exists>m1. forward env Grad m1 (batch_inputs mt device b) = Inl e"
proof (induction bs arbitrary: m opt ll)
  case Nil
  then show ?case by simp
next
  case (Cons b bs)
  show ?case
  proof (cases "forward env Grad m (batch_inputs mt device b)")
    case (Inl e')
    with Cons.prems have "e' = e" by simp
    with Inl show ?thesis by auto
  next
    case (Inr y)
    obtain opt1 m1 where o: "optimizer_step env opt m (batch_inputs mt device b) (b_labels b) = (opt1, m1)"
      by (cases "optimizer_step env opt m (batch_inputs mt device b) (b_labels b)") auto
    from Cons.prems Inr o
    have "train_batches env mt device bs
            (m1, opt1, ll @ [criterion env (predictions_of y) (b_labels b) + recon_loss_of y])
          = Inl e" by simp
    from Cons.IH [OF this] show ?thesis by auto
  qed
qed

lemma validation_batches_fail:
  "validation_batches env mt device m bs (ls, ps) = Inl e \<Longrightarrow>
   \<exists>b \<in> set bs. forward env NoGrad m (batch_inputs mt device b) = Inl e"
proof (induction bs arbitrary: ls ps)
  case Nil
  then show ?case by simp
next
  case (Cons b bs)
  show ?case
  proof (cases "forward env NoGrad m (batch_inputs mt device b)")
    case (Inl e')
    with Cons.prems have "e' = e" by simp
    with Inl show ?thesis by auto
  next
    case (Inr y)
    with Cons.prems
    have "validation_batches env mt device m bs (ls @ b_labels b, ps @ predictions_of y) = Inl e"
      by simp
    from Cons.IH [OF this] show ?thesis by auto
  qed
qed

lemma test_batches_fail:
  "test_batches env mt device m bs (ls, ps) = Inl e \<Longrightarrow>
   \<exists>b \<in> set bs. forward env NoGrad m (batch_inputs mt device b) = Inl e"
proof (induction bs arbitrary: ls ps)
  case Nil
  then show ?case by simp
next
  case (Cons b bs)
  show ?case
  proof (cases "forward env NoGrad m (batch_inputs mt device b)")
    case (Inl e')
    with Cons.prems have "e' = e" by simp
    with Inl show ?thesis by auto
  next
    case (Inr y)
    with Cons.prems
    have "test_batches env mt device m bs (ls @ b_labels b, ps @ predictions_of y) = Inl e"
      by simp
    from Cons.IH [OF this] show ?thesis by auto
  qed
qed

text \<open>The three loops use the model on the prepared inputs only.\<close>

lemma validation_batches_cong:
  "\<forall>b \<in> set bs. forward env' NoGrad m (batch_inputs mt device b) = forward env NoGrad m (batch_inputs mt device b) \<Longrightarrow>
   validation_batches env' mt device m bs acc = validation_batches env mt device m bs acc"
proof (induction bs arbitrary: acc)
  case Nil
  then show ?case by simp
next
  case (Cons b bs)
  obtain ls ps where acc: "acc = (ls, ps)" by (cases acc) auto
  from Cons.prems have "forward env' NoGrad m (batch_inputs mt device b) = forward env NoGrad m (batch_inputs mt device b)"
    and "\<forall>b \<in> set bs. forward env' NoGrad m (batch_inputs mt device b) = forward env NoGrad m (batch_inputs mt device b)"
    by simp_all
  with Cons.IH show ?case unfolding acc by (simp split: sum.splits)
qed

lemma test_batches_cong:
  "\<forall>b \<in> set bs. forward env' NoGrad m (batch_inputs mt device b) = forward env NoGrad m (batch_inputs mt device b) \<Longrightarrow>
   test_batches env' mt device m bs acc = test_batches env mt device m bs acc"
proof (induction bs arbitrary: acc)
  case Nil
  then show ?case by simp
next
  case (Cons b bs)
  obtain ls ps where acc: "acc = (ls, ps)" by (cases acc) auto
  from Cons.prems have "forward env' NoGrad m (batch_inputs mt device b) = forward env NoGrad m (batch_inputs mt device b)"
    and "\<forall>b \<in> set bs. forward env' NoGrad m (batch_inputs mt device b) = forward env NoGrad m (batch_inputs mt device b)"
    by simp_all
  with Cons.IH show ?case unfolding acc by (simp split: sum.splits)
qed

lemma train_batches_cong:
  "\<forall>b \<in> set bs. \<forall>m. forward env' Grad m (batch_inputs mt device b) = forward env Grad m (batch_inputs mt device b) \<Longrightarrow>
   \<forall>b \<in> set bs. \<forall>opt m. optimizer_step env' opt m (batch_inputs mt device b) (b_labels b)
                          = optimizer_step env opt m (batch_inputs mt device b) (b_labels b) \<Longrightarrow>
   criterion env' = criterion env \<Longrightarrow>
   train_batches env' mt device bs acc = train_batches env mt device bs acc"
proof (induction bs arbitrary: acc)
  case Nil
  then show ?case by simp
next
  case (Cons b bs)
  obtain m opt ll where acc: "acc = (m, opt, ll)" by (cases acc) auto
  from Cons.prems(1) have f: "forward env' Grad m (batch_inputs mt device b) = forward env Grad m (batch_inputs mt device b)"
    and fs: "\<forall>b \<in> set bs. \<forall>m. forward env' Grad m (batch_inputs mt device b) = forward env Grad m (batch_inputs mt device b)"
    by simp_all
  from Cons.prems(2) have o: "optimizer_step env' opt m (batch_inputs mt device b) (b_labels b)
                          = optimizer_step env opt m (batch_inputs mt device b) (b_labels b)"
    and os: "\<forall>b \<in> set bs. \<forall>opt m. optimizer_step env' opt m (batch_inputs mt device b) (b_labels b)
                          = optimizer_step env opt m (batch_inputs mt device b) (b_labels b)"
    by simp_all
  note ih = Cons.IH [OF fs os Cons.prems(3)]
  show ?case unfolding acc
    by (simp add: f o Cons.prems(3) ih Let_def split: sum.splits prod.splits)
qed

lemma strict_forward_moved:
  "forward strict_env g m (batch_inputs ''mamba'' CUDA b) = forward demo_env g m (batch_inputs ''mamba'' CUDA b)"
  by (simp add: strict_env_def demo_env_def batch_inputs_def to_def)

lemma demo_validation_batches:
  "validation_batches demo_env mt device m [demo_batch] ([], []) = Inr ([1], [(0, 1)])"
  by (simp add: demo_env_def demo_batch_def predictions_of_def)

lemma demo_test_batches:
  "test_batches demo_env mt device m [demo_batch] ([], []) = Inr ([1], [(0, 1)])"
  by (simp add: demo_env_def demo_batch_def predictions_of_def)

lemma demo_train_batches:
  "train_batches demo_env mt device [demo_batch] (m, opt, []) = Inr (m\<lparr>params := [1]\<rparr>, opt, [1 / 2])"
  by (simp add: demo_env_def demo_batch_def predictions_of_def recon_loss_of_def)

lemma strict_train_grud:
  "train_batches strict_env ''grud'' CUDA [demo_batch] (m, opt, [])
     = Inl (RuntimeError ''expected a CUDA tensor'')"
  by (simp add: strict_env_def demo_env_def demo_batch_def demo_tensor_def batch_inputs_def)

lemma strict_optimizer_step: "optimizer_step strict_env = optimizer_step demo_env"
  by (simp add: strict_env_def)

lemma strict_criterion: "criterion strict_env = criterion demo_env"
  by (simp add: strict_env_def)

lemma strict_validation_grud:
  "validation_batches strict_env ''grud'' CUDA m [demo_batch] ([], [])
     = Inl (RuntimeError ''expected a CUDA tensor'')"
  by (simp add: strict_env_def demo_env_def demo_batch_def demo_tensor_def batch_inputs_def)

text \<open>Dictionaries, the checkpoint, and the test of the small run.\<close>

lemma map_of_dict_set: "map_of (dict_set k v d) = (map_of d)(k \<mapsto> v)"
  by (induction d) (auto simp add: fun_upd_twist)

lemma map_of_dict_update: "map_of (dict_update d other) = map_of d ++ map_of (rev other)"
  unfolding dict_update_def
proof (induction other arbitrary: d)
  case Nil
  show ?case by simp
next
  case (Cons x xs)
  have "map_of (foldl (\<lambda>acc kv. dict_set (fst kv) (snd kv) acc) d (x # xs))
          = map_of (dict_set (fst x) (snd x) d) ++ map_of (rev xs)"
    by (simp add: Cons.IH)
  also have "\<dots> = (map_of d ++ map_of [x]) ++ map_of (rev xs)"
    by (cases x) (simp add: map_of_dict_set)
  also have "\<dots> = map_of d ++ map_of (rev (x # xs))"
    by simp
  finally show ?case .
qed

lemma torch_load_Inr: "torch_load files p = Inr sd \<longleftrightarrow> files p = Some (Checkpoint sd)"
  by (simp add: torch_load_def split: option.splits file_content.splits)

lemma loaded_model:
  "model_to device (model_eval (load_state_dict m sd)) = \<lparr>params = sd, training = False, placed = device\<rparr>"
  by (cases m) (simp add: model_to_def model_eval_def load_state_dict_def)

lemma demo_env_calls:
  "criterion demo_env p l = 1 / 2"
  "roc_auc_score demo_env l q = Inr (3 / 4)"
  "average_precision_score demo_env l q = Inr (1 / 4)"
  "accuracy_score demo_env l a = 1"
  "classification_report demo_env l a = [(''macro avg'', Obj [(''precision'', Num 1)])]"
  by (simp_all add: demo_env_def)

lemma demo_batches: "dl_batches demo_loader = [demo_batch]"
  by (simp add: demo_loader_def)

lemma probe_demo_any: "dl_batches dl = [demo_batch] \<Longrightarrow> probe dl = Inr (3, 2, 8)"
  by (simp add: probe_def demo_batch_def demo_tensor_def shape_at_def)

lemma demo_test_any:
  assumes "dl_batches te = [demo_batch]" and "files (checkpoint_path out) = Some (Checkpoint sd)"
  shows "test demo_env te out device mt m files =
     (Inr (1 / 2, 1, 1 / 4, 3 / 4),
      files(results_path out \<mapsto>
         Json [(''test_loss'', Num (1 / 2)), (''accuracy'', Num 1), (''AUPRC'', Num (1 / 4)),
               (''AUROC'', Num (3 / 4)), (''macro avg'', Obj [(''precision'', Num 1)])]))"
proof -
  have tb: "test_batches demo_env mt device m' (dl_batches te) ([], []) = Inr ([1], [(0, 1)])" for m'
    unfolding assms(1) by (rule demo_test_batches)
  show ?thesis
    by (simp add: test_def probe_demo_any [OF assms(1)] torch_load_def assms(2) tb demo_env_calls
        dict_update_def Let_def)
qed

text \<open>The test calls the model with gradients off, and no optimisation step.\<close>

lemma test_no_grad:
  "test (env\<lparr>forward := (\<lambda>g. if g = NoGrad then forward env NoGrad else f g),
             optimizer_step := os\<rparr>) te out device mt m files
     = test env te out device mt m files"
proof -
  let ?e = "env\<lparr>forward := (\<lambda>g. if g = NoGrad then forward env NoGrad else f g),
                optimizer_step := os\<rparr>"
  have tb: "test_batches ?e mt device m' bs acc = test_batches env mt device m' bs acc" for m' bs acc
    by (rule test_batches_cong) simp
  show ?thesis
    by (simp add: test_def tb Let_def split: sum.splits prod.splits)
qed

lemma nograd_env_eq:
  "nograd_env =
     demo_env\<lparr>forward := (\<lambda>g. if g = NoGrad then forward demo_env NoGrad
                          else (\<lambda>m x. Inl (RuntimeError ''gradients are recorded''))),
              optimizer_step := optimizer_step demo_env\<rparr>"
  by (simp add: nograd_env_def demo_env_def fun_eq_iff)

lemma nograd_train_batches:
  "train_batches nograd_env mt device [demo_batch] (m, opt, [])
     = Inl (RuntimeError ''gradients are recorded'')"
  by (simp add: nograd_env_def demo_env_def)

text \<open>The device of the model that \<^verbatim>\<open>train\<close> returns.\<close>

lemma epoch_compute_placed:
  "epoch_compute env tr va device mt m opt = Inr r \<Longrightarrow> placed (r_model r) = device"
  by (auto simp add: epoch_compute_def Let_def model_to_def split: sum.splits prod.splits if_splits)

lemma train_epoch_placed:
  assumes "train_epoch env tr va out device mt crit st = Inr st'"
  shows "placed (st_model st') = device"
proof (cases "epoch_compute env tr va device mt (st_model st) (st_optimizer st)")
  case (Inl e)
  with assms show ?thesis by (simp add: train_epoch_Inl)
next
  case (Inr r)
  from train_epoch_Inr [OF Inr, of out crit] assms epoch_compute_placed [OF Inr]
  show ?thesis by auto
qed

lemma epoch_loop_placed:
  "epoch_loop n env tr va out device mt crit st = (err, st') \<Longrightarrow>
   st_val_loss st \<noteq> None \<longrightarrow> placed (st_model st) = device \<Longrightarrow>
   st_val_loss st' \<noteq> None \<longrightarrow> placed (st_model st') = device"
proof (induction n arbitrary: st)
  case 0
  then show ?case by simp
next
  case (Suc n)
  show ?case
  proof (cases "train_epoch env tr va out device mt crit st")
    case (Inl e)
    with Suc.prems show ?thesis by simp
  next
    case (Inr st1)
    from train_epoch_placed [OF Inr] have p: "st_val_loss st1 \<noteq> None \<longrightarrow> placed (st_model st1) = device"
      by simp
    show ?thesis
    proof (cases "stop_flag (st_early_stopping st1)")
      case True
      with Suc.prems(1) Inr p show ?thesis by simp
    next
      case False
      with Suc.prems(1) Inr have "epoch_loop n env tr va out device mt crit st1 = (err, st')"
        by simp
      from Suc.IH [OF this p] show ?thesis .
    qed
  qed
qed

lemma train_returns_placed:
  assumes "train env tr va out epochs patience device mt lr crit margs files = (Inr (vl, m), files1)"
  shows "placed m = device"
proof -
  from assms obtain st0 where s: "train_setup env tr out patience device mt lr margs files = Inr st0"
    by (cases "train_setup env tr out patience device mt lr margs files") (simp_all add: train_def)
  obtain err st where l: "epoch_loop (nat epochs) env tr va out device mt crit st0 = (err, st)"
    by (cases "epoch_loop (nat epochs) env tr va out device mt crit st0") auto
  from train_setup_state [OF s] have "st_val_loss st0 = None" by simp
  with epoch_loop_placed [OF l] have p: "st_val_loss st \<noteq> None \<longrightarrow> placed (st_model st) = device"
    by simp
  from assms s l have "err = None" by (cases err) (simp_all add: train_def)
  with assms s l have "train_finish out st = (Inr (vl, m), files1)" by (simp add: train_def)
  then have "st_val_loss st = Some vl \<and> m = st_model st"
    by (auto simp add: train_finish_def Let_def split: option.splits file_content.splits)
  with p show ?thesis by simp
qed

lemma demo_make_dataloaders:
  "make_dataloaders [7, 8, 9 :: nat] [4 :: nat] [5 :: nat] 64 (\<lambda>xs. demo_batch) (\<lambda>xs. demo_batch)
     = Inr (demo_loader\<lparr>dl_shuffle := True\<rparr>,
            demo_loader\<lparr>dl_batch_size := 64, dl_shuffle := True\<rparr>,
            demo_loader\<lparr>dl_batch_size := 64\<rparr>)"
  by (simp add: make_dataloaders_def DataLoader_init_def train_batch_size_def demo_loader_def
      chunks_short)

lemma demo_epoch_compute_any:
  "dl_batches tr = [demo_batch] \<Longrightarrow> dl_batches va = [demo_batch] \<Longrightarrow>
   epoch_compute demo_env tr va device mt m opt
     = Inr \<lparr>r_model = \<lparr>params = [1], training = False, placed = device\<rparr>, r_optimizer = opt,
            r_accum_loss = 1 / 2, r_auc_score = 3 / 4, r_aupr_score = 1 / 4, r_val_loss = 1 / 2\<rparr>"
  by (cases m) (simp add: epoch_compute_def demo_env_def model_to_def
      model_train_def model_eval_def np_mean_def predictions_of_def recon_loss_of_def)

lemma demo_construct: "construct demo_env c = Inr demo_model"
  by (simp add: demo_env_def)

lemma checkpoint_path_neq_curves_path: "checkpoint_path out \<noteq> curves_path out"
  by (simp add: checkpoint_path_def curves_path_def)

lemma demo_train_any:
  assumes "dl_batches tr = [demo_batch]" and "dl_batches va = [demo_batch]" and "0 \<le> lr"
  shows "\<exists>files1. train demo_env tr va ''run'' 1 5 device ''mamba'' lr ''auroc'' [] Map.empty
            = (Inr (1 / 2, \<lparr>params = [1], training = False, placed = device\<rparr>), files1) \<and>
          files1 (checkpoint_path ''run'') = Some (Checkpoint [1])"
proof -
  have n: "nat 1 = Suc 0" by simp
  show ?thesis
    unfolding train_def n
    by (simp add: train_setup_def probe_demo_any [OF assms(1)] build_model_def demo_construct
        demo_Adam [OF assms(3)]
        train_epoch_Inr [OF demo_epoch_compute_any [OF assms(1,2)]] set_early_stopping_def
        EarlyStopping_init_def EarlyStopping_call_def append_text_def write_text_def
        torch_save_def state_dict_def train_finish_def log_path_neq_checkpoint_path
        log_path_neq_checkpoint_path [THEN not_sym] checkpoint_path_neq_curves_path
        log_path_neq_curves_path)
qed

subsection \<open>The scalar given to the early stopping controller\<close>

text \<open>
  Claim C1: every epoch that completes submits to the early stopping controller the
  scalar its criterion selects, computed from that epoch's validation metrics:
  1 - AUROC for auroc, 1 - AUPRC for auprc, 1 - (AUPRC + AUROC) for auprc+auroc, and the
  validation loss for loss. The controller and the files after the epoch are those of
  this one call, made after the row of the epoch has been appended to the log.
\<close>

theorem early_stopping_scalar:
  assumes "train_epoch env tr va out device mt crit st = Inr st'"
  shows "\<exists>r. epoch_compute env tr va device mt (st_model st) (st_optimizer st) = Inr r \<and>
     (crit = ''auroc'' \<longrightarrow>
        (st_early_stopping st', st_files st') =
          EarlyStopping_call (st_early_stopping st) (1 - r_auc_score r) (r_model r)
            (append_text (st_files st) (log_path out)
               (log_row env (st_epoch st) (r_accum_loss r) (r_val_loss r) (r_auc_score r)))) \<and>
     (crit = ''auprc'' \<longrightarrow>
        (st_early_stopping st', st_files st') =
          EarlyStopping_call (st_early_stopping st) (1 - r_aupr_score r) (r_model r)
            (append_text (st_files st) (log_path out)
               (log_row env (st_epoch st) (r_accum_loss r) (r_val_loss r) (r_auc_score r)))) \<and>
     (crit = ''auprc+auroc'' \<longrightarrow>
        (st_early_stopping st', st_files st') =
          EarlyStopping_call (st_early_stopping st) (1 - (r_aupr_score r + r_auc_score r)) (r_model r)
            (append_text (st_files st) (log_path out)
               (log_row env (st_epoch st) (r_accum_loss r) (r_val_loss r) (r_auc_score r)))) \<and>
     (crit = ''loss'' \<longrightarrow>
        (st_early_stopping st', st_files st') =
          EarlyStopping_call (st_early_stopping st) (r_val_loss r) (r_model r)
            (append_text (st_files st) (log_path out)
               (log_row env (st_epoch st) (r_accum_loss r) (r_val_loss r) (r_auc_score r))))"
proof (cases "epoch_compute env tr va device mt (st_model st) (st_optimizer st)")
  case (Inl e)
  with assms show ?thesis by (simp add: train_epoch_def)
next
  case (Inr r)
  with assms have st': "st' = \<lparr>st_model = r_model r, st_optimizer = r_optimizer r,
        st_early_stopping = fst (set_early_stopping crit (r_auc_score r) (r_aupr_score r)
           (r_val_loss r) (st_early_stopping st) (r_model r)
           (append_text (st_files st) (log_path out)
               (log_row env (st_epoch st) (r_accum_loss r) (r_val_loss r) (r_auc_score r)))),
        st_files = snd (set_early_stopping crit (r_auc_score r) (r_aupr_score r)
           (r_val_loss r) (st_early_stopping st) (r_model r)
           (append_text (st_files st) (log_path out)
               (log_row env (st_epoch st) (r_accum_loss r) (r_val_loss r) (r_auc_score r)))),
        st_val_loss = Some (r_val_loss r), st_epoch = st_epoch st + 1\<rparr>"
    by (simp add: train_epoch_def Let_def split: prod.splits)
  show ?thesis
    unfolding Inr st' by (simp add: set_early_stopping_def)
qed

theorem early_stopping_scalar_witness:
  "train_epoch demo_env demo_loader demo_loader ''run'' CPU ''mamba'' ''auroc'' demo_state0
     = Inr demo_state1 \<and>
   (st_early_stopping demo_state1, st_files demo_state1) =
      EarlyStopping_call (st_early_stopping demo_state0) (1 - 3 / 4)
        \<lparr>params = [1], training = False, placed = CPU\<rparr>
        (append_text (st_files demo_state0) (log_path ''run'')
           (log_row demo_env (st_epoch demo_state0) (1 / 2) (1 / 2) (3 / 4))) \<and>
   best (st_early_stopping demo_state1) = Some (1 / 4)"
proof -
  from early_stopping_scalar [OF demo_train_epoch1]
  obtain r where r: "epoch_compute demo_env demo_loader demo_loader CPU ''mamba''
        (st_model demo_state0) (st_optimizer demo_state0) = Inr r"
    and s: "(st_early_stopping demo_state1, st_files demo_state1) =
          EarlyStopping_call (st_early_stopping demo_state0) (1 - r_auc_score r) (r_model r)
            (append_text (st_files demo_state0) (log_path ''run'')
               (log_row demo_env (st_epoch demo_state0) (r_accum_loss r) (r_val_loss r) (r_auc_score r)))"
    by auto
  from r have "r = \<lparr>r_model = \<lparr>params = [1], training = False, placed = CPU\<rparr>,
            r_optimizer = st_optimizer demo_state0,
            r_accum_loss = 1 / 2, r_auc_score = 3 / 4, r_aupr_score = 1 / 4, r_val_loss = 1 / 2\<rparr>"
    by (simp add: demo_state0_def demo_epoch_compute)
  with s have "(st_early_stopping demo_state1, st_files demo_state1) =
      EarlyStopping_call (st_early_stopping demo_state0) (1 - 3 / 4)
        \<lparr>params = [1], training = False, placed = CPU\<rparr>
        (append_text (st_files demo_state0) (log_path ''run'')
           (log_row demo_env (st_epoch demo_state0) (1 / 2) (1 / 2) (3 / 4)))"
    by simp
  moreover have "best (st_early_stopping demo_state1) = Some (1 / 4)"
    by (simp add: demo_state1_def)
  ultimately show ?thesis using demo_train_epoch1 by simp
qed

subsection \<open>The training log\<close>

text \<open>
  Claim C2: once the setup has written the header, whatever way the epoch loop ends
  (budget used up, stop flag, or an epoch that fails), the training log is the header
  line epoch,train_loss,val_loss,val_roc_auc_score followed by exactly one row per
  completed epoch, at most as many as the epoch budget. Row i is the join of four fields:
  the epoch index i + 1 and three floats, and splitting it at the commas gives these
  four fields back when the text of a float has no comma. The file that \<^verbatim>\<open>train\<close>
  leaves behind is this one. In each epoch the three floats are the mean of the losses
  of that epoch's training batches, the validation loss and the validation AUROC.
\<close>

theorem training_log_rows:
  assumes "train_setup env tr out patience device mt lr margs files = Inr st0"
    and "epoch_loop (nat epochs) env tr va out device mt crit st0 = (err, st)"
  shows "st_epoch st \<le> nat epochs \<and>
     log_header = ''epoch,train_loss,val_loss,val_roc_auc_score'' @ newline \<and>
     (\<exists>rows. st_files st (log_path out) = Some (Text (log_header @ csv_text rows)) \<and>
        length rows = st_epoch st \<and>
        (\<forall>i<length rows. \<exists>a v u. rows ! i = log_fields env i a v u) \<and>
        (\<forall>r \<in> set rows. length r = 4 \<and>
           ((\<forall>x. CHR '','' \<notin> set (str_float env x)) \<longrightarrow> split_on CHR '','' (join '','' r) = r))) \<and>
     snd (train env tr va out epochs patience device mt lr crit margs files) (log_path out)
       = st_files st (log_path out) \<and>
     (\<forall>s s' r t. epoch_compute env tr va device mt (st_model s) (st_optimizer s) = Inr r \<and>
        es_path (st_early_stopping s) = checkpoint_path out \<and>
        st_files s (log_path out) = Some (Text t) \<and>
        train_epoch env tr va out device mt crit s = Inr s' \<longrightarrow>
          st_epoch s' = Suc (st_epoch s) \<and>
          st_files s' (log_path out) =
            Some (Text (t @ join '','' [str_nat (st_epoch s + 1), str_float env (r_accum_loss r),
                                         str_float env (r_val_loss r), str_float env (r_auc_score r)]
                          @ newline)) \<and>
          (\<exists>m1 opt1 loss_list.
             train_batches env mt device (dl_batches tr)
               (model_to device (model_train (st_model s)), st_optimizer s, [])
               = Inr (m1, opt1, loss_list) \<and>
             length loss_list = length (dl_batches tr) \<and>
             r_accum_loss r = np_mean loss_list))"
proof -
  from train_setup_state [OF assms(1)] have st0: "st_epoch st0 = 0"
    "st_files st0 = write_text files (log_path out) log_header"
    "st_early_stopping st0 = EarlyStopping_init patience (checkpoint_path out)" by simp_all
  from st0(3) have p: "es_path (st_early_stopping st0) \<noteq> log_path out"
    by (simp add: EarlyStopping_init_def log_path_neq_checkpoint_path)
  from st0(2) have f: "st_files st0 (log_path out) = Some (Text (log_header @ csv_text []))"
    by (simp add: write_text_def csv_text_def)
  from epoch_loop_log [OF assms(2) p f] st0(1)
  obtain rows where rows: "st_files st (log_path out) = Some (Text (log_header @ csv_text rows))"
    "length rows = st_epoch st"
    "\<forall>i<length rows. \<exists>a v u. rows ! i = log_fields env i a v u"
    and le: "st_epoch st \<le> nat epochs"
    by auto
  have fields: "length r = 4 \<and>
           ((\<forall>x. CHR '','' \<notin> set (str_float env x)) \<longrightarrow> split_on CHR '','' (join '','' r) = r)"
    if "r \<in> set rows" for r
  proof -
    from that obtain i where "i < length rows" "r = rows ! i" by (auto simp add: in_set_conv_nth)
    with rows(3) obtain a v u where "r = log_fields env i a v u" by auto
    then show ?thesis by (simp add: log_fields_split) (simp add: log_fields_def)
  qed
  have step: "st_epoch s' = Suc (st_epoch s) \<and>
          st_files s' (log_path out) =
            Some (Text (t @ join '','' [str_nat (st_epoch s + 1), str_float env (r_accum_loss r),
                                         str_float env (r_val_loss r), str_float env (r_auc_score r)]
                          @ newline)) \<and>
          (\<exists>m1 opt1 loss_list.
             train_batches env mt device (dl_batches tr)
               (model_to device (model_train (st_model s)), st_optimizer s, [])
               = Inr (m1, opt1, loss_list) \<and>
             length loss_list = length (dl_batches tr) \<and>
             r_accum_loss r = np_mean loss_list)"
    if r: "epoch_compute env tr va device mt (st_model s) (st_optimizer s) = Inr r"
      and q: "es_path (st_early_stopping s) = checkpoint_path out"
      and t: "st_files s (log_path out) = Some (Text t)"
      and e: "train_epoch env tr va out device mt crit s = Inr s'"
    for s s' r t
  proof -
    from q have "es_path (st_early_stopping s) \<noteq> log_path out"
      by (simp add: log_path_neq_checkpoint_path)
    from train_epoch_log [OF r this t e] epoch_compute_accum_loss [OF r]
    show ?thesis by (simp add: log_fields_def)
  qed
  from le log_header_text rows fields train_log_kept [OF assms] step
  show ?thesis by blast
qed

theorem training_log_rows_witness:
  "train_setup demo_env demo_loader ''run'' 5 CPU ''mamba'' (1 / 10000) [] Map.empty = Inr demo_state0 \<and>
   (\<exists>st. epoch_loop (nat 2) demo_env demo_loader demo_loader ''run'' CPU ''mamba'' ''auroc'' demo_state0
          = (None, st) \<and>
      st_epoch st = 2 \<and>
      st_files st (log_path ''run'') =
          Some (Text (''epoch,train_loss,val_loss,val_roc_auc_score'' @ newline @
                      ''1,0.5,0.5,0.5'' @ newline @ ''2,0.5,0.5,0.5'' @ newline)) \<and>
      (\<exists>rows. length rows = 2 \<and>
         st_files st (log_path ''run'') = Some (Text (log_header @ csv_text rows))))"
proof -
  from demo_loop_auroc obtain st where
    l: "epoch_loop (nat 2) demo_env demo_loader demo_loader ''run'' CPU ''mamba'' ''auroc'' demo_state0
          = (None, st)"
    and e: "st_epoch st = 2"
    and t: "st_files st (log_path ''run'') =
          Some (Text (''epoch,train_loss,val_loss,val_roc_auc_score'' @ newline @
                      ''1,0.5,0.5,0.5'' @ newline @ ''2,0.5,0.5,0.5'' @ newline))"
    by blast
  from training_log_rows [OF demo_setup0 l]
  obtain rows where "st_files st (log_path ''run'') = Some (Text (log_header @ csv_text rows))"
    "length rows = st_epoch st"
    by blast
  with e have "\<exists>rows. length rows = 2 \<and>
         st_files st (log_path ''run'') = Some (Text (log_header @ csv_text rows))" by auto
  with demo_setup0 l e t show ?thesis by blast
qed

subsection \<open>An unknown model type\<close>

text \<open>
  Claim C3: for every model-type identifier outside grud, ipnets, seft, transformer and
  mamba, \<^verbatim>\<open>train\<close> fails before the first epoch: it returns an error and
  leaves every file as it was (the training log is not even created). Once the probe
  batch has been read the error is the UnboundLocalError for \<^verbatim>\<open>model\<close>, raised
  right after the chain of constructors, whatever the environment does.
\<close>

theorem unknown_model_type_fails_fast:
  assumes "model_type \<notin> {''grud'', ''ipnets'', ''seft'', ''transformer'', ''mamba''}"
  shows "(\<exists>e. train env tr va out epochs patience device model_type lr crit margs files = (Inl e, files)) \<and>
         train_setup env tr out patience device model_type lr margs files =
           (case probe tr of Inl e \<Rightarrow> Inl e | Inr shapes \<Rightarrow> Inl (UnboundLocalError ''model'')) \<and>
         (\<forall>shapes. probe tr = Inr shapes \<longrightarrow>
            train env tr va out epochs patience device model_type lr crit margs files
              = (Inl (UnboundLocalError ''model''), files))"
proof -
  have su: "train_setup env tr out patience device model_type lr margs files =
           (case probe tr of Inl e \<Rightarrow> Inl e | Inr shapes \<Rightarrow> Inl (UnboundLocalError ''model''))"
    using assms by (simp add: train_setup_def build_model_unknown split: sum.splits prod.splits)
  have fails: "\<exists>e. train env tr va out epochs patience device model_type lr crit margs files = (Inl e, files)"
    by (cases "probe tr") (simp_all add: train_def su)
  have named: "train env tr va out epochs patience device model_type lr crit margs files
              = (Inl (UnboundLocalError ''model''), files)" if "probe tr = Inr shapes" for shapes
    using that by (simp add: train_def su)
  from su fails named show ?thesis by blast
qed

theorem unknown_model_type_fails_fast_witness:
  "''lstm'' \<notin> {''grud'', ''ipnets'', ''seft'', ''transformer'', ''mamba''} \<and>
   train demo_env demo_loader demo_loader ''run'' 300 5 CPU ''lstm'' (1 / 10000) ''auroc'' [] Map.empty
     = (Inl (UnboundLocalError ''model''), Map.empty)"
  using unknown_model_type_fails_fast [where model_type = "''lstm''" and env = demo_env
      and tr = demo_loader and va = demo_loader and out = "''run''" and epochs = 300
      and patience = 5 and device = CPU and lr = "1 / 10000" and crit = "''auroc''"
      and margs = "[]" and files = Map.empty]
    probe_demo_loader
  by simp

subsection \<open>The validation scores\<close>

text \<open>
  Claim C4: in every validation pass the model, in evaluation mode and with gradients
  off, is called once on each validation batch, and the labels and the logits of all batches are collected in
  order. AUROC and AUPRC are computed from the labels and, for each sample with logits
  (a, b), the softmax probability exp b / (exp a + exp b) of class 1, which is column 1
  of the softmax over the two classes (every row of it is positive and sums to 1). The
  validation loss is the criterion applied to the collected logits themselves.
\<close>

theorem validation_scores:
  assumes "epoch_compute env tr va device mt m opt = Inr r"
  shows "\<exists>outs labels_list predictions_list.
     list_all2 (\<lambda>b y. forward env NoGrad (r_model r) (batch_inputs mt device b) = Inr y) (dl_batches va) outs \<and>
     labels_list = concat (map b_labels (dl_batches va)) \<and>
     predictions_list = concat (map predictions_of outs) \<and>
     roc_auc_score env labels_list (map (\<lambda>(a, b). exp b / (exp a + exp b)) predictions_list)
       = Inr (r_auc_score r) \<and>
     average_precision_score env labels_list (map (\<lambda>(a, b). exp b / (exp a + exp b)) predictions_list)
       = Inr (r_aupr_score r) \<and>
     r_val_loss r = criterion env predictions_list labels_list \<and>
     column1 (softmax predictions_list) = map (\<lambda>(a, b). exp b / (exp a + exp b)) predictions_list \<and>
     (\<forall>p \<in> set (softmax predictions_list). 0 < fst p \<and> 0 < snd p \<and> fst p + snd p = 1) \<and>
     \<not> training (r_model r)"
proof (cases "train_batches env mt device (dl_batches tr) (model_to device (model_train m), opt, [])")
  case (Inl e)
  with assms show ?thesis by (simp add: epoch_compute_def)
next
  case (Inr res)
  obtain m1 opt1 loss_list where res: "res = (m1, opt1, loss_list)" by (cases res) auto
  let ?m2 = "model_to device (model_eval m1)"
  show ?thesis
  proof (cases "validation_batches env mt device ?m2 (dl_batches va) ([], [])")
    case (Inl e)
    with assms Inr res show ?thesis by (simp add: epoch_compute_def Let_def)
  next
    case v: (Inr acc)
    obtain labels_list predictions_list where acc: "acc = (labels_list, predictions_list)"
      by (cases acc) auto
    from assms Inr res v acc
    have auc: "roc_auc_score env labels_list (column1 (softmax predictions_list)) = Inr (r_auc_score r)"
      and aupr: "average_precision_score env labels_list (column1 (softmax predictions_list))
                   = Inr (r_aupr_score r)"
      and loss: "r_val_loss r = criterion env predictions_list labels_list"
      and m2: "r_model r = ?m2"
      by (auto simp add: epoch_compute_def Let_def split: sum.splits if_splits)
    from validation_batches_run [OF v [unfolded acc]] obtain outs where
      outs: "list_all2 (\<lambda>b y. forward env NoGrad ?m2 (batch_inputs mt device b) = Inr y) (dl_batches va) outs"
        "labels_list = concat (map b_labels (dl_batches va))"
        "predictions_list = concat (map predictions_of outs)" by auto
    have probs: "\<forall>p \<in> set (softmax predictions_list). 0 < fst p \<and> 0 < snd p \<and> fst p + snd p = 1"
      by (auto simp add: softmax_def softmax_row_props)
    have "\<not> training (r_model r)" by (simp add: m2 model_to_def model_eval_def)
    with outs auc aupr loss probs m2 show ?thesis
      by (intro exI [of _ outs] exI [of _ labels_list] exI [of _ predictions_list])
         (simp add: column1_softmax)
  qed
qed

theorem validation_scores_witness:
  "epoch_compute demo_env demo_loader demo_loader CPU ''mamba'' demo_model demo_optimizer
     = Inr \<lparr>r_model = \<lparr>params = [1], training = False, placed = CPU\<rparr>,
            r_optimizer = demo_optimizer,
            r_accum_loss = 1 / 2, r_auc_score = 3 / 4, r_aupr_score = 1 / 4, r_val_loss = 1 / 2\<rparr> \<and>
   (\<exists>outs. list_all2 (\<lambda>b y. forward demo_env NoGrad \<lparr>params = [1], training = False, placed = CPU\<rparr>
                                (batch_inputs ''mamba'' CPU b) = Inr y) [demo_batch] outs \<and>
      roc_auc_score demo_env [1]
        (map (\<lambda>(a, b). exp b / (exp a + exp b)) (concat (map predictions_of outs))) = Inr (3 / 4) \<and>
      criterion demo_env (concat (map predictions_of outs)) [1] = 1 / 2)"
proof -
  let ?R = "\<lparr>r_model = \<lparr>params = [1], training = False, placed = CPU\<rparr>,
            r_optimizer = demo_optimizer,
            r_accum_loss = 1 / 2, r_auc_score = 3 / 4, r_aupr_score = 1 / 4, r_val_loss = 1 / 2\<rparr>"
  have c: "epoch_compute demo_env demo_loader demo_loader CPU ''mamba'' demo_model
             demo_optimizer = Inr ?R"
    by (rule demo_epoch_compute)
  from validation_scores [OF c] obtain outs where
    "list_all2 (\<lambda>b y. forward demo_env NoGrad (r_model ?R) (batch_inputs ''mamba'' CPU b) = Inr y)
       (dl_batches demo_loader) outs"
    "roc_auc_score demo_env (concat (map b_labels (dl_batches demo_loader)))
       (map (\<lambda>(a, b). exp b / (exp a + exp b)) (concat (map predictions_of outs)))
       = Inr (r_auc_score ?R)"
    "r_val_loss ?R = criterion demo_env (concat (map predictions_of outs))
       (concat (map b_labels (dl_batches demo_loader)))"
    by blast
  then have "list_all2 (\<lambda>b y. forward demo_env NoGrad \<lparr>params = [1], training = False, placed = CPU\<rparr>
                                (batch_inputs ''mamba'' CPU b) = Inr y) [demo_batch] outs \<and>
      roc_auc_score demo_env [1]
        (map (\<lambda>(a, b). exp b / (exp a + exp b)) (concat (map predictions_of outs))) = Inr (3 / 4) \<and>
      criterion demo_env (concat (map predictions_of outs)) [1] = 1 / 2"
    by (simp add: demo_loader_def demo_batch_def)
  with c show ?thesis by blast
qed

subsection \<open>The device placement of the batches\<close>

text \<open>
  Claim C5: in the training, the validation and the test loop the model is called on
  the five tensors of the batch moved to the compute device when the model type is not
  grud (the move changes the device only, not the shape or the entries), and on the
  tensors as they are when it is grud. Each loop that succeeds has called the model on
  these inputs of every batch, in order, and has used the answers (the training loop
  also gives these inputs to the optimisation step); a loop that fails returns the
  error of one such call. The loops call the model on no other inputs: two environments
  whose models (and, for training, optimisation steps) agree on these inputs give the
  same result in each of the three loops.
\<close>

theorem device_transfer_policy:
  "(mt \<noteq> ''grud'' \<longrightarrow>
      batch_inputs mt device b =
        \<lparr>in_x = to device (b_data b), in_static = to device (b_static b),
         in_time = to device (b_times b), in_sensor_mask = to device (b_mask b),
         in_delta = to device (b_delta b)\<rparr> \<and>
      dev (in_x (batch_inputs mt device b)) = device \<and>
      dev (in_static (batch_inputs mt device b)) = device \<and>
      dev (in_time (batch_inputs mt device b)) = device \<and>
      dev (in_sensor_mask (batch_inputs mt device b)) = device \<and>
      dev (in_delta (batch_inputs mt device b)) = device) \<and>
   batch_inputs ''grud'' device b =
     \<lparr>in_x = b_data b, in_static = b_static b, in_time = b_times b,
      in_sensor_mask = b_mask b, in_delta = b_delta b\<rparr> \<and>
   shape (to device t) = shape t \<and> content (to device t) = content t \<and>
   (\<forall>m' opt' ll'. train_batches env mt device bs (m0, opt0, ll0) = Inr (m', opt', ll') \<longrightarrow>
      (\<exists>sts outs. length sts = Suc (length bs) \<and> length outs = length bs \<and>
         sts ! 0 = (m0, opt0) \<and> sts ! length bs = (m', opt') \<and>
         (\<forall>i<length bs.
            forward env Grad (fst (sts ! i)) (batch_inputs mt device (bs ! i)) = Inr (outs ! i) \<and>
            optimizer_step env (snd (sts ! i)) (fst (sts ! i)) (batch_inputs mt device (bs ! i))
                (b_labels (bs ! i))
              = (snd (sts ! Suc i), fst (sts ! Suc i))) \<and>
         ll' = ll0 @ map (\<lambda>(b, y). criterion env (predictions_of y) (b_labels b) + recon_loss_of y)
                       (zip bs outs))) \<and>
   (\<forall>ls' ps'. validation_batches env mt device m bs (ls, ps) = Inr (ls', ps') \<longrightarrow>
      (\<exists>outs. list_all2 (\<lambda>b y. forward env NoGrad m (batch_inputs mt device b) = Inr y) bs outs \<and>
         ls' = ls @ concat (map b_labels bs) \<and> ps' = ps @ concat (map predictions_of outs))) \<and>
   (\<forall>ls' ps'. test_batches env mt device m bs (ls, ps) = Inr (ls', ps') \<longrightarrow>
      (\<exists>outs. list_all2 (\<lambda>b y. forward env NoGrad m (batch_inputs mt device b) = Inr y) bs outs \<and>
         ls' = ls @ concat (map b_labels bs) \<and> ps' = ps @ concat (map predictions_of outs))) \<and>
   (\<forall>e. train_batches env mt device bs (m0, opt0, ll0) = Inl e \<longrightarrow>
      (\<exists>b \<in> set bs. \<exists>m1. forward env Grad m1 (batch_inputs mt device b) = Inl e)) \<and>
   (\<forall>e. validation_batches env mt device m bs (ls, ps) = Inl e \<longrightarrow>
      (\<exists>b \<in> set bs. forward env NoGrad m (batch_inputs mt device b) = Inl e)) \<and>
   (\<forall>e. test_batches env mt device m bs (ls, ps) = Inl e \<longrightarrow>
      (\<exists>b \<in> set bs. forward env NoGrad m (batch_inputs mt device b) = Inl e)) \<and>
   ((\<forall>b \<in> set bs. \<forall>g m. forward env' g m (batch_inputs mt device b)
                          = forward env g m (batch_inputs mt device b)) \<longrightarrow>
      validation_batches env' mt device m bs vacc = validation_batches env mt device m bs vacc \<and>
      test_batches env' mt device m bs vacc = test_batches env mt device m bs vacc \<and>
      (criterion env' = criterion env \<and>
       (\<forall>b \<in> set bs. \<forall>opt m. optimizer_step env' opt m (batch_inputs mt device b) (b_labels b)
                              = optimizer_step env opt m (batch_inputs mt device b) (b_labels b)) \<longrightarrow>
         train_batches env' mt device bs tacc = train_batches env mt device bs tacc))"
proof -
  have moved: "batch_inputs mt device b =
        \<lparr>in_x = to device (b_data b), in_static = to device (b_static b),
         in_time = to device (b_times b), in_sensor_mask = to device (b_mask b),
         in_delta = to device (b_delta b)\<rparr> \<and>
      dev (in_x (batch_inputs mt device b)) = device \<and>
      dev (in_static (batch_inputs mt device b)) = device \<and>
      dev (in_time (batch_inputs mt device b)) = device \<and>
      dev (in_sensor_mask (batch_inputs mt device b)) = device \<and>
      dev (in_delta (batch_inputs mt device b)) = device" if "mt \<noteq> ''grud''"
    using that by (simp add: batch_inputs_def to_def)
  have kept: "batch_inputs ''grud'' device b =
     \<lparr>in_x = b_data b, in_static = b_static b, in_time = b_times b,
      in_sensor_mask = b_mask b, in_delta = b_delta b\<rparr>"
    by (simp add: batch_inputs_def)
  have frame: "shape (to device t) = shape t \<and> content (to device t) = content t"
    by (simp add: to_def)
  note trun = train_batches_run [of env mt device bs m0 opt0 ll0]
  note vrun = validation_batches_run [of env mt device m bs ls ps]
  note urun = test_batches_run [of env mt device m bs ls ps]
  note tfail = train_batches_fail [of env mt device bs m0 opt0 ll0]
  note vfail = validation_batches_fail [of env mt device m bs ls ps]
  note ufail = test_batches_fail [of env mt device m bs ls ps]
  have loops: "validation_batches env' mt device m bs vacc = validation_batches env mt device m bs vacc \<and>
      test_batches env' mt device m bs vacc = test_batches env mt device m bs vacc \<and>
      (criterion env' = criterion env \<and>
       (\<forall>b \<in> set bs. \<forall>opt m. optimizer_step env' opt m (batch_inputs mt device b) (b_labels b)
                              = optimizer_step env opt m (batch_inputs mt device b) (b_labels b)) \<longrightarrow>
         train_batches env' mt device bs tacc = train_batches env mt device bs tacc)"
    if f: "\<forall>b \<in> set bs. \<forall>g m. forward env' g m (batch_inputs mt device b)
                          = forward env g m (batch_inputs mt device b)"
  proof -
    from f have "\<forall>b \<in> set bs. forward env' NoGrad m (batch_inputs mt device b)
                        = forward env NoGrad m (batch_inputs mt device b)" by simp
    then have "validation_batches env' mt device m bs vacc = validation_batches env mt device m bs vacc"
      and "test_batches env' mt device m bs vacc = test_batches env mt device m bs vacc"
      by (rule validation_batches_cong, rule test_batches_cong)
    moreover from f have g: "\<forall>b \<in> set bs. \<forall>m. forward env' Grad m (batch_inputs mt device b)
                        = forward env Grad m (batch_inputs mt device b)" by simp
    have "train_batches env' mt device bs tacc = train_batches env mt device bs tacc"
      if "criterion env' = criterion env"
        and "\<forall>b \<in> set bs. \<forall>opt m. optimizer_step env' opt m (batch_inputs mt device b) (b_labels b)
                              = optimizer_step env opt m (batch_inputs mt device b) (b_labels b)"
      using g that(2) that(1) by (rule train_batches_cong)
    ultimately show ?thesis by simp
  qed
  show ?thesis
    apply (intro conjI impI allI)
    using moved kept frame trun vrun urun tfail vfail ufail loops by blast+
qed

theorem device_transfer_policy_witness:
  "''mamba'' \<noteq> ''grud'' \<and>
   dev (in_x (batch_inputs ''mamba'' CUDA demo_batch)) = CUDA \<and>
   dev (in_x (batch_inputs ''grud'' CUDA demo_batch)) = CPU \<and>
   (\<forall>g m. forward strict_env g m (batch_inputs ''mamba'' CUDA demo_batch)
            = forward demo_env g m (batch_inputs ''mamba'' CUDA demo_batch)) \<and>
   train_batches strict_env ''mamba'' CUDA [demo_batch] (demo_model, demo_optimizer, [])
     = Inr (demo_model\<lparr>params := [1]\<rparr>, demo_optimizer, [1 / 2]) \<and>
   (\<exists>y. forward strict_env Grad demo_model
           \<lparr>in_x = to CUDA (b_data demo_batch), in_static = to CUDA (b_static demo_batch),
            in_time = to CUDA (b_times demo_batch), in_sensor_mask = to CUDA (b_mask demo_batch),
            in_delta = to CUDA (b_delta demo_batch)\<rparr> = Inr y) \<and>
   validation_batches strict_env ''mamba'' CUDA demo_model [demo_batch] ([], []) = Inr ([1], [(0, 1)]) \<and>
   test_batches strict_env ''mamba'' CUDA demo_model [demo_batch] ([], []) = Inr ([1], [(0, 1)]) \<and>
   train_batches strict_env ''grud'' CUDA [demo_batch] (demo_model, demo_optimizer, [])
     = Inl (RuntimeError ''expected a CUDA tensor'') \<and>
   validation_batches strict_env ''grud'' CUDA demo_model [demo_batch] ([], [])
     = Inl (RuntimeError ''expected a CUDA tensor'')"
proof -
  note t = device_transfer_policy [where mt = "''mamba''" and device = CUDA and b = demo_batch
      and env' = strict_env and env = demo_env and bs = "[demo_batch]" and m = demo_model
      and vacc = "([], [])" and tacc = "(demo_model, demo_optimizer, [])"]
  note s = device_transfer_policy [where mt = "''mamba''" and device = CUDA and b = demo_batch
      and env = strict_env and bs = "[demo_batch]" and ?m0.0 = demo_model
      and ?opt0.0 = demo_optimizer and ?ll0.0 = "[]"]
  have ne: "''mamba'' \<noteq> ''grud''" by simp
  from t ne have d: "dev (in_x (batch_inputs ''mamba'' CUDA demo_batch)) = CUDA" by blast
  from t ne have mv: "batch_inputs ''mamba'' CUDA demo_batch =
        \<lparr>in_x = to CUDA (b_data demo_batch), in_static = to CUDA (b_static demo_batch),
         in_time = to CUDA (b_times demo_batch), in_sensor_mask = to CUDA (b_mask demo_batch),
         in_delta = to CUDA (b_delta demo_batch)\<rparr>" by blast
  from t have "batch_inputs ''grud'' CUDA demo_batch =
     \<lparr>in_x = b_data demo_batch, in_static = b_static demo_batch, in_time = b_times demo_batch,
      in_sensor_mask = b_mask demo_batch, in_delta = b_delta demo_batch\<rparr>" by blast
  then have g: "dev (in_x (batch_inputs ''grud'' CUDA demo_batch)) = CPU"
    by (simp add: demo_batch_def demo_tensor_def)
  have h: "\<forall>b \<in> set [demo_batch]. \<forall>g m. forward strict_env g m (batch_inputs ''mamba'' CUDA b)
          = forward demo_env g m (batch_inputs ''mamba'' CUDA b)"
    by (simp add: strict_forward_moved)
  have o: "criterion strict_env = criterion demo_env \<and>
       (\<forall>b \<in> set [demo_batch]. \<forall>opt m. optimizer_step strict_env opt m (batch_inputs ''mamba'' CUDA b) (b_labels b)
                              = optimizer_step demo_env opt m (batch_inputs ''mamba'' CUDA b) (b_labels b))"
    by (simp add: strict_optimizer_step strict_criterion)
  from t h have ve: "validation_batches strict_env ''mamba'' CUDA demo_model [demo_batch] ([], [])
        = validation_batches demo_env ''mamba'' CUDA demo_model [demo_batch] ([], [])"
    and te: "test_batches strict_env ''mamba'' CUDA demo_model [demo_batch] ([], [])
        = test_batches demo_env ''mamba'' CUDA demo_model [demo_batch] ([], [])"
    by blast+
  from t h o have tr: "train_batches strict_env ''mamba'' CUDA [demo_batch] (demo_model, demo_optimizer, [])
        = train_batches demo_env ''mamba'' CUDA [demo_batch] (demo_model, demo_optimizer, [])"
    by blast
  have v: "validation_batches strict_env ''mamba'' CUDA demo_model [demo_batch] ([], [])
             = Inr ([1], [(0, 1)])"
    unfolding ve by (rule demo_validation_batches)
  have u: "test_batches strict_env ''mamba'' CUDA demo_model [demo_batch] ([], [])
             = Inr ([1], [(0, 1)])"
    unfolding te by (rule demo_test_batches)
  have w: "train_batches strict_env ''mamba'' CUDA [demo_batch] (demo_model, demo_optimizer, [])
     = Inr (demo_model\<lparr>params := [1]\<rparr>, demo_optimizer, [1 / 2])"
    unfolding tr by (rule demo_train_batches)
  from s [THEN conjunct2, THEN conjunct2, THEN conjunct2, THEN conjunct2, THEN conjunct1,
      rule_format, OF w]
  obtain sts outs where
    "sts ! 0 = (demo_model, demo_optimizer)"
    "\<forall>i<length [demo_batch].
        forward strict_env Grad (fst (sts ! i)) (batch_inputs ''mamba'' CUDA ([demo_batch] ! i))
          = Inr (outs ! i) \<and>
        optimizer_step strict_env (snd (sts ! i)) (fst (sts ! i))
            (batch_inputs ''mamba'' CUDA ([demo_batch] ! i)) (b_labels ([demo_batch] ! i))
          = (snd (sts ! Suc i), fst (sts ! Suc i))"
    by blast
  then have "forward strict_env Grad demo_model (batch_inputs ''mamba'' CUDA demo_batch) = Inr (outs ! 0)"
    by auto
  then have c: "\<exists>y. forward strict_env Grad demo_model
           \<lparr>in_x = to CUDA (b_data demo_batch), in_static = to CUDA (b_static demo_batch),
            in_time = to CUDA (b_times demo_batch), in_sensor_mask = to CUDA (b_mask demo_batch),
            in_delta = to CUDA (b_delta demo_batch)\<rparr> = Inr y"
    unfolding mv by blast
  from ne d g strict_forward_moved w c v u strict_train_grud strict_validation_grud
  show ?thesis by blast
qed

subsection \<open>The test evaluator\<close>

text \<open>
  Claim C6: whenever \<^verbatim>\<open>test\<close> returns, a checkpoint was read from the checkpoint
  path and its parameters replaced those of the given model (the result does not depend
  on the parameters the model came with); the model, in evaluation mode and with
  gradients off, was then called once on each batch of the test stream, in order, and
  the pass is gradient-free: it makes no call that records gradients and no optimisation
  step, so the result stays the same whatever such calls and steps would do; the four
  scalars returned are the loss
  of the collected logits, the accuracy of the argmax classes, and AUPRC and AUROC of the
  class-1 probabilities; and the file test_results.json holds the dictionary of these
  same four scalars updated with the classification report, so that it maps every key of
  the report to the report's entry and each of the four names that the report does not
  use to its scalar.
\<close>

theorem test_evaluator:
  assumes "test env te out device mt m files = (Inr (loss, acc, auprc, auc), files')"
  shows "\<exists>sd outs labels_list predictions_list.
     files (checkpoint_path out) = Some (Checkpoint sd) \<and>
     model_to device (model_eval (load_state_dict m sd))
       = \<lparr>params = sd, training = False, placed = device\<rparr> \<and>
     list_all2 (\<lambda>b y. forward env NoGrad \<lparr>params = sd, training = False, placed = device\<rparr>
                         (batch_inputs mt device b) = Inr y) (dl_batches te) outs \<and>
     labels_list = concat (map b_labels (dl_batches te)) \<and>
     predictions_list = concat (map predictions_of outs) \<and>
     loss = criterion env predictions_list labels_list \<and>
     acc = accuracy_score env labels_list (argmax (softmax predictions_list)) \<and>
     average_precision_score env labels_list (column1 (softmax predictions_list)) = Inr auprc \<and>
     roc_auc_score env labels_list (column1 (softmax predictions_list)) = Inr auc \<and>
     (\<exists>doc. files' = files(results_path out \<mapsto> Json doc) \<and>
        doc = dict_update
                [(''test_loss'', Num loss), (''accuracy'', Num acc),
                 (''AUPRC'', Num auprc), (''AUROC'', Num auc)]
                (classification_report env labels_list (argmax (softmax predictions_list))) \<and>
        map_of doc =
          map_of [(''test_loss'', Num loss), (''accuracy'', Num acc),
                  (''AUPRC'', Num auprc), (''AUROC'', Num auc)]
          ++ map_of (rev (classification_report env labels_list (argmax (softmax predictions_list))))) \<and>
     (\<forall>q. test env te out device mt (m\<lparr>params := q\<rparr>) files = test env te out device mt m files) \<and>
     (\<forall>f os. test (env\<lparr>forward := (\<lambda>g. if g = NoGrad then forward env NoGrad else f g),
                            optimizer_step := os\<rparr>) te out device mt m files
               = test env te out device mt m files)"
proof -
  have nog: "\<forall>f os. test (env\<lparr>forward := (\<lambda>g. if g = NoGrad then forward env NoGrad else f g),
                            optimizer_step := os\<rparr>) te out device mt m files
               = test env te out device mt m files"
    by (simp add: test_no_grad)
  have h: "load_state_dict (m\<lparr>params := q\<rparr>) sd = load_state_dict m sd" for q sd
    by (simp add: load_state_dict_def)
  have indep: "\<forall>q. test env te out device mt (m\<lparr>params := q\<rparr>) files = test env te out device mt m files"
    unfolding test_def h by simp
  from assms obtain shapes where pr: "probe te = Inr shapes"
    by (cases "probe te") (simp_all add: test_def)
  from assms pr obtain sd where ld: "torch_load files (checkpoint_path out) = Inr sd"
    by (cases "torch_load files (checkpoint_path out)") (simp_all add: test_def)
  let ?m = "model_to device (model_eval (load_state_dict m sd))"
  from assms pr ld obtain acc0 where tb: "test_batches env mt device ?m (dl_batches te) ([], []) = Inr acc0"
    by (cases "test_batches env mt device ?m (dl_batches te) ([], [])") (simp_all add: test_def)
  obtain labels_list predictions_list where acc0: "acc0 = (labels_list, predictions_list)"
    by (cases acc0) auto
  from assms pr ld tb acc0
  have res: "loss = criterion env predictions_list labels_list"
    "acc = accuracy_score env labels_list (argmax (softmax predictions_list))"
    "average_precision_score env labels_list (column1 (softmax predictions_list)) = Inr auprc"
    "roc_auc_score env labels_list (column1 (softmax predictions_list)) = Inr auc"
    "files' = files(results_path out \<mapsto> Json (dict_update
                [(''test_loss'', Num loss), (''accuracy'', Num acc),
                 (''AUPRC'', Num auprc), (''AUROC'', Num auc)]
                (classification_report env labels_list (argmax (softmax predictions_list)))))"
    by (auto simp add: test_def Let_def split: sum.splits)
  from test_batches_run [OF tb [unfolded acc0]] obtain outs where
    outs: "list_all2 (\<lambda>b y. forward env NoGrad ?m (batch_inputs mt device b) = Inr y) (dl_batches te) outs"
      "labels_list = concat (map b_labels (dl_batches te))"
      "predictions_list = concat (map predictions_of outs)" by auto
  from ld have ck: "files (checkpoint_path out) = Some (Checkpoint sd)"
    by (simp add: torch_load_Inr)
  from outs(1) have outs1: "list_all2 (\<lambda>b y. forward env NoGrad \<lparr>params = sd, training = False, placed = device\<rparr>
                         (batch_inputs mt device b) = Inr y) (dl_batches te) outs"
    by (simp add: loaded_model)
  show ?thesis
    apply (intro exI [of _ sd] exI [of _ outs] exI [of _ labels_list] exI [of _ predictions_list])
    apply (intro conjI ck loaded_model outs1 outs(2) outs(3) res(1) res(2) res(3) res(4) indep nog)
    apply (rule exI [of _ "dict_update
                [(''test_loss'', Num loss), (''accuracy'', Num acc),
                 (''AUPRC'', Num auprc), (''AUROC'', Num auc)]
                (classification_report env labels_list (argmax (softmax predictions_list)))"])
    apply (intro conjI res(5) refl map_of_dict_update)
    done
qed

theorem test_evaluator_witness:
  "test demo_env demo_loader ''run'' CPU ''mamba'' demo_model
       [checkpoint_path ''run'' \<mapsto> Checkpoint [7]] =
     (Inr (1 / 2, 1, 1 / 4, 3 / 4),
      [checkpoint_path ''run'' \<mapsto> Checkpoint [7],
       results_path ''run'' \<mapsto>
         Json [(''test_loss'', Num (1 / 2)), (''accuracy'', Num 1), (''AUPRC'', Num (1 / 4)),
               (''AUROC'', Num (3 / 4)), (''macro avg'', Obj [(''precision'', Num 1)])]]) \<and>
   (\<exists>outs. list_all2 (\<lambda>b y. forward demo_env NoGrad \<lparr>params = [7], training = False, placed = CPU\<rparr>
                         (batch_inputs ''mamba'' CPU b) = Inr y) [demo_batch] outs \<and>
      criterion demo_env (concat (map predictions_of outs)) [1] = 1 / 2) \<and>
   test nograd_env demo_loader ''run'' CPU ''mamba'' demo_model
       [checkpoint_path ''run'' \<mapsto> Checkpoint [7]] =
     test demo_env demo_loader ''run'' CPU ''mamba'' demo_model
       [checkpoint_path ''run'' \<mapsto> Checkpoint [7]] \<and>
   train_batches nograd_env ''mamba'' CPU [demo_batch] (demo_model, demo_optimizer, [])
     = Inl (RuntimeError ''gradients are recorded'')"
proof -
  have t: "test demo_env demo_loader ''run'' CPU ''mamba'' demo_model
       [checkpoint_path ''run'' \<mapsto> Checkpoint [7]] =
     (Inr (1 / 2, 1, 1 / 4, 3 / 4),
      [checkpoint_path ''run'' \<mapsto> Checkpoint [7],
       results_path ''run'' \<mapsto>
         Json [(''test_loss'', Num (1 / 2)), (''accuracy'', Num 1), (''AUPRC'', Num (1 / 4)),
               (''AUROC'', Num (3 / 4)), (''macro avg'', Obj [(''precision'', Num 1)])]])"
    by (simp add: demo_test_any [OF demo_batches])
  from test_evaluator [OF t]
  have "\<forall>f os. test (demo_env\<lparr>forward := (\<lambda>g. if g = NoGrad then forward demo_env NoGrad else f g),
                            optimizer_step := os\<rparr>) demo_loader ''run'' CPU ''mamba'' demo_model
                   [checkpoint_path ''run'' \<mapsto> Checkpoint [7]]
               = test demo_env demo_loader ''run'' CPU ''mamba'' demo_model
                   [checkpoint_path ''run'' \<mapsto> Checkpoint [7]]"
    by blast
  from this [rule_format, where f = "\<lambda>g m x. Inl (RuntimeError ''gradients are recorded'')"
      and os = "optimizer_step demo_env"]
  have ng: "test nograd_env demo_loader ''run'' CPU ''mamba'' demo_model
       [checkpoint_path ''run'' \<mapsto> Checkpoint [7]] =
     test demo_env demo_loader ''run'' CPU ''mamba'' demo_model
       [checkpoint_path ''run'' \<mapsto> Checkpoint [7]]"
    unfolding nograd_env_eq .
  from test_evaluator [OF t] obtain sd outs where
    "[checkpoint_path ''run'' \<mapsto> Checkpoint [7]] (checkpoint_path ''run'') = Some (Checkpoint sd)"
    "list_all2 (\<lambda>b y. forward demo_env NoGrad \<lparr>params = sd, training = False, placed = CPU\<rparr>
                         (batch_inputs ''mamba'' CPU b) = Inr y) (dl_batches demo_loader) outs"
    "1 / 2 = criterion demo_env (concat (map predictions_of outs))
               (concat (map b_labels (dl_batches demo_loader)))"
    by blast
  then have "list_all2 (\<lambda>b y. forward demo_env NoGrad \<lparr>params = [7], training = False, placed = CPU\<rparr>
                         (batch_inputs ''mamba'' CPU b) = Inr y) [demo_batch] outs \<and>
      criterion demo_env (concat (map predictions_of outs)) [1] = 1 / 2"
    by (simp add: demo_batches demo_batch_def)
  with t ng nograd_train_batches show ?thesis by blast
qed

subsection \<open>The batch size of the training loader\<close>

text \<open>
  Claim C7: for a configured batch size of 64 the training loader is built with batch
  size 32, and in general with the configured batch size divided by two (Python's
  floor division); the test and validation loaders keep the configured size. Each
  training batch is collated from a non-empty chunk of at most that many samples. With
  batch size 64 the three loaders are built whenever the training and the test set are
  not empty; an empty training set makes the sampler of the training loader fail.
\<close>

theorem train_loader_batch_size:
  "train_batch_size 64 = 32 \<and> train_batch_size batch_size = batch_size div 2 \<and>
   (train_pair \<noteq> [] \<and> test_data \<noteq> [] \<longrightarrow>
      (\<exists>tr te va. make_dataloaders train_pair val_data test_data 64 f g = Inr (tr, te, va)
         \<and> dl_batch_size tr = 32 \<and> dl_batch_size te = 64 \<and> dl_batch_size va = 64)) \<and>
   (train_pair = [] \<longrightarrow>
      make_dataloaders train_pair val_data test_data batch_size f g
        = Inl (ValueError ''num_samples should be a positive integer value'')) \<and>
   (make_dataloaders train_pair val_data test_data batch_size f g = Inr (tr, te, va) \<longrightarrow>
      dl_batch_size tr = batch_size div 2 \<and>
      dl_batches tr = map f (chunks (nat (batch_size div 2)) train_pair) \<and>
      (\<forall>c \<in> set (chunks (nat (batch_size div 2)) train_pair). c \<noteq> [] \<and> int (length c) \<le> batch_size div 2) \<and>
      dl_batch_size te = batch_size \<and> dl_batch_size va = batch_size)"
proof -
  have a: "train_batch_size 64 = 32" by (simp add: train_batch_size_def)
  have b: "train_batch_size batch_size = batch_size div 2" by (simp add: train_batch_size_def)
  have c: "\<exists>tr te va. make_dataloaders train_pair val_data test_data 64 f g = Inr (tr, te, va)
       \<and> dl_batch_size tr = 32 \<and> dl_batch_size te = 64 \<and> dl_batch_size va = 64"
    if "train_pair \<noteq> [] \<and> test_data \<noteq> []"
    using that by (simp add: make_dataloaders_def DataLoader_init_def train_batch_size_def)
  have d: "dl_batch_size tr = batch_size div 2 \<and>
      dl_batches tr = map f (chunks (nat (batch_size div 2)) train_pair) \<and>
      dl_batch_size te = batch_size \<and> dl_batch_size va = batch_size"
    if "make_dataloaders train_pair val_data test_data batch_size f g = Inr (tr, te, va)"
    using that
    by (auto simp add: make_dataloaders_def DataLoader_init_def train_batch_size_def
        split: if_splits)
  have e: "\<forall>c \<in> set (chunks (nat (batch_size div 2)) train_pair). c \<noteq> [] \<and> int (length c) \<le> batch_size div 2"
    if "make_dataloaders train_pair val_data test_data batch_size f g = Inr (tr, te, va)"
  proof
    fix c assume "c \<in> set (chunks (nat (batch_size div 2)) train_pair)"
    then have "c \<noteq> [] \<and> length c \<le> nat (batch_size div 2)" by (rule chunks_length)
    moreover from that have "0 < batch_size div 2"
      by (auto simp add: make_dataloaders_def DataLoader_init_def train_batch_size_def
        split: if_splits)
    ultimately show "c \<noteq> [] \<and> int (length c) \<le> batch_size div 2" by linarith
  qed
  have n: "make_dataloaders train_pair val_data test_data batch_size f g
        = Inl (ValueError ''num_samples should be a positive integer value'')"
    if "train_pair = []"
    using that by (simp add: make_dataloaders_def DataLoader_init_def)
  from a b c n d e show ?thesis by blast
qed

theorem train_loader_batch_size_witness:
  "make_dataloaders [7, 8, 9 :: nat] [4 :: nat] [5 :: nat] 64 (\<lambda>xs. demo_batch) (\<lambda>xs. demo_batch)
     = Inr (demo_loader\<lparr>dl_shuffle := True\<rparr>,
            demo_loader\<lparr>dl_batch_size := 64, dl_shuffle := True\<rparr>,
            demo_loader\<lparr>dl_batch_size := 64\<rparr>) \<and>
   dl_batch_size (demo_loader\<lparr>dl_shuffle := True\<rparr>) = 64 div 2 \<and>
   chunks (nat (64 div 2)) [7, 8, 9 :: nat] = [[7, 8, 9]]"
proof -
  have c: "chunks 32 [7, 8, 9 :: nat] = [[7, 8, 9]]"
    by (simp add: chunks_short)
  have c4: "chunks 64 [4 :: nat] = [[4]]"
    by (simp add: chunks_short)
  have c5: "chunks 64 [5 :: nat] = [[5]]"
    by (simp add: chunks_short)
  have m: "make_dataloaders [7, 8, 9 :: nat] [4 :: nat] [5 :: nat] 64 (\<lambda>xs. demo_batch) (\<lambda>xs. demo_batch)
     = Inr (demo_loader\<lparr>dl_shuffle := True\<rparr>,
            demo_loader\<lparr>dl_batch_size := 64, dl_shuffle := True\<rparr>,
            demo_loader\<lparr>dl_batch_size := 64\<rparr>)"
    by (simp add: make_dataloaders_def DataLoader_init_def train_batch_size_def demo_loader_def c c4 c5)
  from train_loader_batch_size [where batch_size = 64 and train_pair = "[7, 8, 9 :: nat]"
      and val_data = "[4 :: nat]" and test_data = "[5 :: nat]" and f = "\<lambda>xs. demo_batch"
      and g = "\<lambda>xs. demo_batch", THEN conjunct2, THEN conjunct2, THEN conjunct2,
      THEN conjunct2, rule_format, OF m]
  have "dl_batch_size (demo_loader\<lparr>dl_shuffle := True\<rparr>) = 64 div 2" by simp
  with m c show ?thesis by simp
qed

subsection \<open>The compute device\<close>

text \<open>
  Claim C8: \<^verbatim>\<open>train_test\<close> chooses the device once, after the loaders are built and
  before training: CUDA when it is available, else MPS when it is available, else the
  CPU. It hands this one value to \<^verbatim>\<open>train\<close> and then to \<^verbatim>\<open>test\<close>; the model that
  \<^verbatim>\<open>train\<close> returns is placed on the device it was given.
\<close>

theorem device_selected_once:
  "(cuda_is_available env \<longrightarrow> assign_device env = CUDA) \<and>
   (\<not> cuda_is_available env \<and> mps_is_available env \<longrightarrow> assign_device env = MPS) \<and>
   (\<not> cuda_is_available env \<and> \<not> mps_is_available env \<longrightarrow> assign_device env = CPU) \<and>
   (\<forall>tr te va. make_dataloaders train_pair val_data test_data batch_size f g = Inr (tr, te, va) \<longrightarrow>
      train_test env train_pair val_data test_data out mt margs batch_size epochs patience lr crit
          f g files =
        (case train env tr va out epochs patience (assign_device env) mt lr crit margs files of
           (Inl e, files1) \<Rightarrow> (Inl e, files1)
         | (Inr (vl, m), files1) \<Rightarrow> test env te out (assign_device env) mt m files1)) \<and>
   (\<forall>tr va device vl m files1.
      train env tr va out epochs patience device mt lr crit margs files = (Inr (vl, m), files1) \<longrightarrow>
        placed m = device)"
proof -
  have dev: "(cuda_is_available env \<longrightarrow> assign_device env = CUDA) \<and>
   (\<not> cuda_is_available env \<and> mps_is_available env \<longrightarrow> assign_device env = MPS) \<and>
   (\<not> cuda_is_available env \<and> \<not> mps_is_available env \<longrightarrow> assign_device env = CPU)"
    by (simp add: assign_device_def)
  have run: "train_test env train_pair val_data test_data out mt margs batch_size epochs patience lr crit
          f g files =
        (case train env tr va out epochs patience (assign_device env) mt lr crit margs files of
           (Inl e, files1) \<Rightarrow> (Inl e, files1)
         | (Inr (vl, m), files1) \<Rightarrow> test env te out (assign_device env) mt m files1)"
    if "make_dataloaders train_pair val_data test_data batch_size f g = Inr (tr, te, va)" for tr te va
    using that by (simp add: train_test_def Let_def)
  from dev run train_returns_placed show ?thesis by blast
qed

theorem device_selected_once_witness:
  "make_dataloaders [7, 8, 9 :: nat] [4 :: nat] [5 :: nat] 64 (\<lambda>xs. demo_batch) (\<lambda>xs. demo_batch)
     = Inr (demo_loader\<lparr>dl_shuffle := True\<rparr>,
            demo_loader\<lparr>dl_batch_size := 64, dl_shuffle := True\<rparr>,
            demo_loader\<lparr>dl_batch_size := 64\<rparr>) \<and>
   \<not> cuda_is_available demo_env \<and> mps_is_available demo_env \<and> assign_device demo_env = MPS \<and>
   fst (train_test demo_env [7, 8, 9 :: nat] [4 :: nat] [5 :: nat] ''run'' ''mamba'' [] 64 1 5
          (1 / 10000) ''auroc'' (\<lambda>xs. demo_batch) (\<lambda>xs. demo_batch) Map.empty)
     = Inr (1 / 2, 1, 1 / 4, 3 / 4)"
proof -
  note t = device_selected_once [where env = demo_env and train_pair = "[7, 8, 9 :: nat]"
      and val_data = "[4 :: nat]" and test_data = "[5 :: nat]" and batch_size = 64
      and f = "\<lambda>xs. demo_batch" and g = "\<lambda>xs. demo_batch" and out = "''run''"
      and mt = "''mamba''" and margs = "[]" and epochs = 1 and patience = 5
      and lr = "1 / 10000" and crit = "''auroc''" and files = Map.empty]
  have av: "\<not> cuda_is_available demo_env" "mps_is_available demo_env"
    by (simp_all add: demo_env_def)
  with t have d: "assign_device demo_env = MPS" by blast
  from t demo_make_dataloaders
  have run: "train_test demo_env [7, 8, 9 :: nat] [4 :: nat] [5 :: nat] ''run'' ''mamba'' [] 64 1 5
          (1 / 10000) ''auroc'' (\<lambda>xs. demo_batch) (\<lambda>xs. demo_batch) Map.empty =
        (case train demo_env (demo_loader\<lparr>dl_shuffle := True\<rparr>) (demo_loader\<lparr>dl_batch_size := 64\<rparr>)
                ''run'' 1 5 (assign_device demo_env) ''mamba'' (1 / 10000) ''auroc'' [] Map.empty of
           (Inl e, files1) \<Rightarrow> (Inl e, files1)
         | (Inr (vl, m), files1) \<Rightarrow>
             test demo_env (demo_loader\<lparr>dl_batch_size := 64, dl_shuffle := True\<rparr>) ''run''
               (assign_device demo_env) ''mamba'' m files1)"
    by blast
  have b: "dl_batches (demo_loader\<lparr>dl_shuffle := True\<rparr>) = [demo_batch]"
    "dl_batches (demo_loader\<lparr>dl_batch_size := 64\<rparr>) = [demo_batch]"
    "dl_batches (demo_loader\<lparr>dl_batch_size := 64, dl_shuffle := True\<rparr>) = [demo_batch]"
    by (simp_all add: demo_loader_def)
  have "(0 :: real) \<le> 1 / 10000" by simp
  from demo_train_any [OF b(1) b(2) this] obtain files1 where
    tr: "train demo_env (demo_loader\<lparr>dl_shuffle := True\<rparr>) (demo_loader\<lparr>dl_batch_size := 64\<rparr>)
            ''run'' 1 5 MPS ''mamba'' (1 / 10000) ''auroc'' [] Map.empty
          = (Inr (1 / 2, \<lparr>params = [1], training = False, placed = MPS\<rparr>), files1)"
    and ck: "files1 (checkpoint_path ''run'') = Some (Checkpoint [1])"
    by blast
  have "fst (train_test demo_env [7, 8, 9 :: nat] [4 :: nat] [5 :: nat] ''run'' ''mamba'' [] 64 1 5
          (1 / 10000) ''auroc'' (\<lambda>xs. demo_batch) (\<lambda>xs. demo_batch) Map.empty)
     = Inr (1 / 2, 1, 1 / 4, 3 / 4)"
    unfolding run d tr
    by (simp add: demo_test_any [where files = files1 and out = "''run''" and sd = "[1]", OF b(3) ck])
  with demo_make_dataloaders av d show ?thesis by blast
qed

subsection \<open>An unknown early stopping criterion\<close>

text \<open>
  Claim C9: for every criterion outside auroc, auprc, auprc+auroc and loss, no scalar
  is submitted: the submission step changes neither the controller nor the files and
  has no failing branch, so over the whole loop the controller stays as it was built
  (stop flag unset, no best value), the checkpoint file stays as it was before the
  call, and the loop ends only after the full budget of epochs or in an epoch whose
  own computation fails.
\<close>

theorem unknown_criterion_never_submits:
  assumes "crit \<notin> {''auroc'', ''auprc'', ''auprc+auroc'', ''loss''}"
  shows "set_early_stopping crit a p v es m fs0 = (es, fs0) \<and>
     (\<forall>r. epoch_compute env tr va device mt (st_model st) (st_optimizer st) = Inr r \<longrightarrow>
        (\<exists>st1. train_epoch env tr va out device mt crit st = Inr st1 \<and>
           st_early_stopping st1 = st_early_stopping st \<and>
           st_files st1 (checkpoint_path out) = st_files st (checkpoint_path out))) \<and>
     (\<forall>st0 err st'.
        train_setup env tr out patience device mt lr margs files = Inr st0 \<and>
        epoch_loop (nat epochs) env tr va out device mt crit st0 = (err, st') \<longrightarrow>
          st_early_stopping st' = EarlyStopping_init patience (checkpoint_path out) \<and>
          \<not> stop_flag (st_early_stopping st') \<and> best (st_early_stopping st') = None \<and>
          st_files st' (checkpoint_path out) = files (checkpoint_path out) \<and>
          (err = None \<longrightarrow> st_epoch st' = nat epochs) \<and>
          (\<forall>e. err = Some e \<longrightarrow>
             epoch_compute env tr va device mt (st_model st') (st_optimizer st') = Inl e))"
proof -
  have one: "set_early_stopping crit a p v es m fs0 = (es, fs0)"
    using assms by (rule set_early_stopping_unknown)
  have two: "\<exists>st1. train_epoch env tr va out device mt crit st = Inr st1 \<and>
           st_early_stopping st1 = st_early_stopping st \<and>
           st_files st1 (checkpoint_path out) = st_files st (checkpoint_path out)"
    if r: "epoch_compute env tr va device mt (st_model st) (st_optimizer st) = Inr r" for r
  proof -
    from train_epoch_succeeds [OF r] obtain st1
      where st1: "train_epoch env tr va out device mt crit st = Inr st1" by blast
    from train_epoch_unknown [OF assms st1] log_path_neq_checkpoint_path [of out]
    have "st_early_stopping st1 = st_early_stopping st \<and>
           st_files st1 (checkpoint_path out) = st_files st (checkpoint_path out)" by simp
    with st1 show ?thesis by blast
  qed
  have three: "st_early_stopping st' = EarlyStopping_init patience (checkpoint_path out) \<and>
          \<not> stop_flag (st_early_stopping st') \<and> best (st_early_stopping st') = None \<and>
          st_files st' (checkpoint_path out) = files (checkpoint_path out) \<and>
          (err = None \<longrightarrow> st_epoch st' = nat epochs) \<and>
          (\<forall>e. err = Some e \<longrightarrow>
             epoch_compute env tr va device mt (st_model st') (st_optimizer st') = Inl e)"
    if s: "train_setup env tr out patience device mt lr margs files = Inr st0"
      and l: "epoch_loop (nat epochs) env tr va out device mt crit st0 = (err, st')"
    for st0 err st'
  proof -
    from train_setup_state [OF s] have st0: "st_epoch st0 = 0"
      "st_files st0 = write_text files (log_path out) log_header"
      "st_early_stopping st0 = EarlyStopping_init patience (checkpoint_path out)" by simp_all
    from epoch_loop_unknown [OF assms l]
    have k: "st_early_stopping st' = st_early_stopping st0"
      "\<forall>p. p \<noteq> log_path out \<longrightarrow> st_files st' p = st_files st0 p"
      "err = None \<and> \<not> stop_flag (st_early_stopping st0) \<longrightarrow> st_epoch st' = st_epoch st0 + nat epochs"
      "\<forall>e. err = Some e \<longrightarrow>
            epoch_compute env tr va device mt (st_model st') (st_optimizer st') = Inl e"
      by simp_all
    from k(2) log_path_neq_checkpoint_path [of out] st0(2)
    have "st_files st' (checkpoint_path out) = files (checkpoint_path out)"
      by (simp add: write_text_def)
    with k st0 show ?thesis by (simp add: EarlyStopping_init_def)
  qed
  from one two three show ?thesis by blast
qed

theorem unknown_criterion_never_submits_witness:
  "''f1'' \<notin> {''auroc'', ''auprc'', ''auprc+auroc'', ''loss''} \<and>
   train_setup demo_env demo_loader ''run'' 5 CPU ''mamba'' (1 / 10000) [] Map.empty = Inr demo_state0 \<and>
   (\<exists>st'. epoch_loop (nat 2) demo_env demo_loader demo_loader ''run'' CPU ''mamba'' ''f1'' demo_state0
          = (None, st') \<and>
      st_epoch st' = 2 \<and>
      st_early_stopping st' = EarlyStopping_init 5 (checkpoint_path ''run'') \<and>
      st_files st' (checkpoint_path ''run'') = None)"
proof -
  have c: "''f1'' \<notin> {''auroc'', ''auprc'', ''auprc+auroc'', ''loss''}" by simp
  from demo_loop_unknown obtain st' where
    l: "epoch_loop (nat 2) demo_env demo_loader demo_loader ''run'' CPU ''mamba'' ''f1'' demo_state0
          = (None, st')" by blast
  from unknown_criterion_never_submits [OF c, where env = demo_env and tr = demo_loader
      and va = demo_loader and out = "''run''" and patience = 5 and device = CPU
      and mt = "''mamba''" and lr = "1 / 10000" and margs = "[]" and files = Map.empty
      and epochs = 2, THEN conjunct2, THEN conjunct2, rule_format, OF conjI, OF demo_setup0 l]
  have "st_epoch st' = 2 \<and>
      st_early_stopping st' = EarlyStopping_init 5 (checkpoint_path ''run'') \<and>
      st_files st' (checkpoint_path ''run'') = None" by simp
  with c demo_setup0 l show ?thesis by blast
qed

subsection \<open>An epoch budget of zero\<close>

text \<open>
  Claim C10: with an epoch budget of 0 (or less) \<^verbatim>\<open>train\<close> does not return a
  pair of validation loss and model. The body of the epoch loop never runs, so
  \<^verbatim>\<open>val_loss\<close> is never assigned; when the setup succeeds the function writes the
  header and the curves and then fails with the UnboundLocalError for
  \<^verbatim>\<open>val_loss\<close> at its return statement.
\<close>

theorem zero_epochs_train_fails:
  assumes "epochs \<le> 0"
  shows "(\<exists>e. fst (train env tr va out epochs patience device mt lr crit margs files) = Inl e) \<and>
   (\<forall>st0. train_setup env tr out patience device mt lr margs files = Inr st0 \<longrightarrow>
        epoch_loop (nat epochs) env tr va out device mt crit st0 = (None, st0) \<and>
        st_val_loss st0 = None \<and> st_epoch st0 = 0 \<and>
        train env tr va out epochs patience device mt lr crit margs files
          = (Inl (UnboundLocalError ''val_loss''),
             (st_files st0)(curves_path out \<mapsto> Figure log_header)))"
proof -
  from assms have n: "nat epochs = 0" by simp
  have ok: "epoch_loop (nat epochs) env tr va out device mt crit st0 = (None, st0) \<and>
        st_val_loss st0 = None \<and> st_epoch st0 = 0 \<and>
        train env tr va out epochs patience device mt lr crit margs files
          = (Inl (UnboundLocalError ''val_loss''),
             (st_files st0)(curves_path out \<mapsto> Figure log_header))"
    if s: "train_setup env tr out patience device mt lr margs files = Inr st0" for st0
  proof -
    from s have st: "st_val_loss st0 = None" "st_epoch st0 = 0"
      "st_files st0 = write_text files (log_path out) log_header"
      using train_setup_state by blast+
    then have "train_finish out st0
       = (Inl (UnboundLocalError ''val_loss''), (st_files st0)(curves_path out \<mapsto> Figure log_header))"
      by (simp add: train_finish_def write_text_def)
    with s st n show ?thesis by (simp add: train_def)
  qed
  have "\<exists>e. fst (train env tr va out epochs patience device mt lr crit margs files) = Inl e"
  proof (cases "train_setup env tr out patience device mt lr margs files")
    case (Inl e)
    then show ?thesis by (simp add: train_def)
  next
    case (Inr st0)
    with ok show ?thesis by simp
  qed
  with ok show ?thesis by blast
qed

theorem zero_epochs_train_fails_witness:
  "(0::int) \<le> 0 \<and>
   train demo_env demo_loader demo_loader ''run'' 0 5 CPU ''mamba'' (1 / 10000) ''auroc'' [] Map.empty
     = (Inl (UnboundLocalError ''val_loss''),
        [log_path ''run'' \<mapsto> Text log_header, curves_path ''run'' \<mapsto> Figure log_header])"
  using zero_epochs_train_fails [where epochs = 0 and env = demo_env
      and tr = demo_loader and va = demo_loader and out = "''run''"
      and patience = 5 and device = CPU and lr = "1 / 10000" and crit = "''auroc''"
      and mt = "''mamba''" and margs = "[]" and files = Map.empty]
    demo_setup
  by (simp add: write_text_def)

end
